theory Spec2Isabelle
  imports Complex_Main "HOL-Library.Word" "HOL-Library.Log_Nat"
begin

section \<open>Values shared by the services\<close>

text \<open>
  Row identifiers are UUIDs in the schema; only their equality matters, so they are
  natural numbers here. Timestamps are integers (milliseconds).
\<close>

type_synonym uuid = nat
type_synonym timestamp = int

text \<open>
  A JavaScript number is an IEEE 754 double: not-a-number, an infinity, or a finite
  value. A finite double is represented by the rational it denotes, and every operation
  below that produces a number ends with the rounding of the format (to nearest, ties
  to even, 53 significant bits, exponents from -1022 to 1023), so the values that
  arise are exactly the doubles. The two zeros are one value; they compare equal.
\<close>

datatype jsnum = NaN | NegInf | Num rat | PosInf

definition pow2 :: "int \<Rightarrow> rat" where
  "pow2 k = (if 0 \<le> k then 2 ^ nat k else 1 / 2 ^ nat (- k))"

text \<open>The integer nearest to \<open>x\<close>, the even one of the two when \<open>x\<close> is half way.\<close>

definition round_half_even :: "rat \<Rightarrow> int" where
  "round_half_even x =
     (let f = \<lfloor>x\<rfloor>; r = x - of_int f
      in if r < 1 / 2 then f else if 1 / 2 < r then f + 1 else if even f then f else f + 1)"

text \<open>
  For \<open>a > 0\<close>, the exponent \<open>e\<close> with \<open>2 ^ e \<le> a < 2 ^ (e + 1)\<close>: the difference of
  the bit lengths of numerator and denominator, or one less.
\<close>

definition binade :: "rat \<Rightarrow> int" where
  "binade a =
     (let (n, d) = quotient_of a; e0 = bitlen n - bitlen d
      in if pow2 e0 \<le> a then e0 else e0 - 1)"

text \<open>
  The double nearest to a rational. The spacing of doubles around \<open>a\<close> is
  \<open>2 ^ (e - 52)\<close>, with \<open>e\<close> no less than -1022 (below that the doubles are the
  multiples of \<open>2 ^ -1074\<close>). The result leaves the finite range, and is an infinity,
  when the exponent is above 1023 or is 1023 with the significand rounded up to
  \<open>2 ^ 53\<close>.
\<close>

definition round_double :: "rat \<Rightarrow> jsnum" where
  "round_double q =
     (if q = 0 then Num 0
      else
        (let a = \<bar>q\<bar>; e = max (binade a) (- 1022); ulp = pow2 (e - 52);
             m = round_half_even (a / ulp)
         in if 1024 \<le> e \<or> (e = 1023 \<and> 2 ^ 53 \<le> m)
            then (if 0 < q then PosInf else NegInf)
            else Num (if 0 < q then of_int m * ulp else - (of_int m * ulp))))"

text \<open>
  The text handed to \<open>Number.parseFloat\<close>, seen through what it denotes: a decimal
  numeral with its exact value, or text that does not start with a number.
  \<open>parseFloat\<close> gives the double nearest to the value, and not-a-number otherwise.
\<close>

datatype amount_text = Decimal rat | NotANumber

fun parseFloat :: "amount_text \<Rightarrow> jsnum" where
  "parseFloat (Decimal r) = round_double r"
| "parseFloat NotANumber = NaN"

fun js_lt :: "jsnum \<Rightarrow> jsnum \<Rightarrow> bool" where
  "js_lt NaN _ = False"
| "js_lt _ NaN = False"
| "js_lt (Num a) (Num b) = (a < b)"
| "js_lt NegInf NegInf = False"
| "js_lt NegInf _ = True"
| "js_lt PosInf _ = False"
| "js_lt (Num a) PosInf = True"
| "js_lt (Num a) NegInf = False"

definition js_gt :: "jsnum \<Rightarrow> jsnum \<Rightarrow> bool" where
  "js_gt a b = js_lt b a"

fun js_neg :: "jsnum \<Rightarrow> jsnum" where
  "js_neg NaN = NaN"
| "js_neg NegInf = PosInf"
| "js_neg PosInf = NegInf"
| "js_neg (Num a) = Num (- a)"

text \<open>Addition of doubles: the exact sum, rounded.\<close>

fun js_add :: "jsnum \<Rightarrow> jsnum \<Rightarrow> jsnum" where
  "js_add NaN _ = NaN"
| "js_add _ NaN = NaN"
| "js_add (Num a) (Num b) = round_double (a + b)"
| "js_add PosInf NegInf = NaN"
| "js_add NegInf PosInf = NaN"
| "js_add PosInf _ = PosInf"
| "js_add NegInf _ = NegInf"
| "js_add (Num a) PosInf = PosInf"
| "js_add (Num a) NegInf = NegInf"

definition js_sub :: "jsnum \<Rightarrow> jsnum \<Rightarrow> jsnum" where
  "js_sub a b = js_add a (js_neg b)"

section \<open>Persistence layer: the wallets and transactions tables\<close>

datatype wallet_status = Active | Frozen | Deleted

datatype tx_status = Pending | Confirmed | Failed

datatype tx_type = Send | Receive

text \<open>
  A signing key at rest: the object \<open>{encrypted, iv, authTag}\<close> that
  \<open>encryptPrivateKey\<close> returns.
\<close>

record encrypted_key =
  encrypted :: string
  iv :: string
  authTag :: string

text \<open>
  The column \<open>encrypted_private_key\<close> is text. A text is seen through what
  \<open>JSON.parse\<close> makes of it: a JSON value, which is a key object or something else
  (kept as its text), or nothing, when \<open>JSON.parse\<close> raises. \<open>JSON.stringify\<close> of a key
  object gives the text that parses back to it.
\<close>

datatype key_json = KeyObject encrypted_key | OtherJson string

datatype key_text = Json key_json | NotJson string

record wallet_row =
  wallet_id :: uuid
  user_id :: uuid
  white_label_client_id :: "uuid option"
  wallet_name :: string
  address :: string
  encrypted_private_key :: key_text
  is_primary :: bool
  balance_usdc :: "rat option"
  last_balance_update :: "timestamp option"
  wallet_created_at :: timestamp
  wallet_status :: wallet_status

record tx_row =
  tx_id :: uuid
  tx_wallet_id :: uuid
  transaction_hash :: string
  from_address :: string
  to_address :: string
  amount :: rat
  gas_used :: string
  gas_price :: string
  transaction_type :: tx_type
  status :: tx_status
  confirmations :: int
  memo :: "string option"
  created_at :: timestamp
  confirmed_at :: "timestamp option"

record db =
  wallets :: "wallet_row list"
  transactions :: "tx_row list"

datatype error =
    InvalidRecipientAddress
  | WalletNotFoundOrAccessDenied
  | WalletNotFound
  | WalletNameExists
  | InsufficientUSDCBalance
  | InsufficientETHBalanceForGas
  | FailedToGenerateWallet
  | FailedToGetUSDCBalance
  | FailedToGetETHBalance
  | FailedToSendUSDC
  | FailedToGetTransactionDetails
  | FailedToEncryptPrivateKey
  | FailedToDecryptPrivateKey
  | FailedToEncryptBackup
  | FailedToDecryptBackup
  | UniqueViolation
  | DatabaseError
  | TypeError
  | SyntaxError

definition JSON_stringify :: "encrypted_key \<Rightarrow> key_text" where
  "JSON_stringify k = Json (KeyObject k)"

definition JSON_parse :: "key_text \<Rightarrow> error + key_json" where
  "JSON_parse t = (case t of Json v \<Rightarrow> Inr v | NotJson x \<Rightarrow> Inl SyntaxError)"

section \<open>Transaction route: \<open>GET /:txHash\<close>\<close>

text \<open>
  What \<open>blockchainService.getTransaction\<close> returns to the route; the route reads the
  status and the confirmation count, and echoes the rest to the caller.
\<close>

record chain_tx =
  chain_status :: tx_status
  chain_confirmations :: int

datatype tx_response =
    Json200 chain_tx "string option" tx_type
  | Json400 string
  | Json404 string

text \<open>
  The access check: transactions with the given hash, joined with the wallets of the
  calling user.
\<close>

definition select_tx_for_user :: "db \<Rightarrow> string \<Rightarrow> uuid \<Rightarrow> tx_row list" where
  "select_tx_for_user d txHash userId =
     [t. t \<leftarrow> transactions d, w \<leftarrow> wallets d,
         tx_wallet_id t = wallet_id w,
         transaction_hash t = txHash \<and> user_id w = userId]"

text \<open>
  \<open>UPDATE transactions SET status, confirmations, confirmed_at WHERE transaction_hash\<close>.
\<close>

definition update_tx_status :: "db \<Rightarrow> string \<Rightarrow> chain_tx \<Rightarrow> timestamp \<Rightarrow> db" where
  "update_tx_status d txHash btx now =
     d\<lparr>transactions :=
         map (\<lambda>t. if transaction_hash t = txHash
                  then t\<lparr>status := chain_status btx,
                         confirmations := chain_confirmations btx,
                         confirmed_at :=
                           (if chain_status btx = Confirmed then Some now else None)\<rparr>
                  else t)
             (transactions d)\<rparr>"

text \<open>
  The handler. The adapter's answer for the hash is an input: \<open>Inl\<close> when
  \<open>getTransaction\<close> raises, which the handler's catch turns into a 400.
\<close>

definition getTransactionRoute ::
  "db \<Rightarrow> (error + chain_tx) \<Rightarrow> timestamp \<Rightarrow> string \<Rightarrow> uuid \<Rightarrow> tx_response \<times> db" where
  "getTransactionRoute d adapter now txHash userId =
     (if length txHash \<noteq> 66 then (Json400 ''Invalid transaction hash'', d)
      else
        (case select_tx_for_user d txHash userId of
           [] \<Rightarrow> (Json404 ''Transaction not found or access denied'', d)
         | row # _ \<Rightarrow>
             (case adapter of
                Inl e \<Rightarrow> (Json400 ''Failed to get transaction details'', d)
              | Inr blockchainTx \<Rightarrow>
                  (let d' = (if chain_status blockchainTx \<noteq> status row
                             then update_tx_status d txHash blockchainTx now
                             else d)
                   in (Json200 blockchainTx (memo row) (transaction_type row), d')))))"

subsection \<open>Sample rows used to exercise the route\<close>

definition example_wallet :: wallet_row where
  "example_wallet =
     \<lparr>wallet_id = 1, user_id = 7, white_label_client_id = Some 3, wallet_name = ''main'',
      address = ''0xA'',
      encrypted_private_key = Json (KeyObject \<lparr>encrypted = ''c'', iv = ''i'', authTag = ''t''\<rparr>),
      is_primary = True, balance_usdc = Some 50, last_balance_update = None,
      wallet_created_at = 0, wallet_status = Active\<rparr>"

definition example_tx :: tx_row where
  "example_tx =
     \<lparr>tx_id = 1, tx_wallet_id = 1, transaction_hash = replicate 66 CHR ''a'',
      from_address = ''0xA'', to_address = ''0xB'', amount = 80, gas_used = ''21000'',
      gas_price = ''1'', transaction_type = Send, status = Confirmed, confirmations = 12,
      memo = None, created_at = 5, confirmed_at = Some 6\<rparr>"

definition example_db :: db where
  "example_db = \<lparr>wallets = [example_wallet], transactions = [example_tx]\<rparr>"

section \<open>Chain adapter, as the wallet service sees it\<close>

text \<open>
  \<open>blockchainService\<close> wraps a JSON-RPC provider; what its methods answer is outside
  the program, so the adapter is a record of functions. Each method that catches and
  rethrows is a function into \<open>error + _\<close>. \<open>chain_generateWallet\<close> is the outcome of
  one call (the key is random). Balances arrive as decimal text and are kept as the
  rationals they denote. \<open>chain_sendUSDC\<close> is given what the service passes on: the
  parsed key and the amount as it came in.
\<close>

record usdc_balance =
  ub_balance :: rat
  ub_balanceWei :: nat

record send_receipt =
  sr_transactionHash :: string
  sr_gasUsed :: string
  sr_gasPrice :: string

record chain =
  chain_isValidAddress :: "string \<Rightarrow> bool"
  chain_generateWallet :: "error + string \<times> encrypted_key"
  chain_getUSDCBalance :: "string \<Rightarrow> error + usdc_balance"
  chain_getETHBalance :: "string \<Rightarrow> error + rat"
  chain_sendUSDC :: "key_json \<Rightarrow> string \<Rightarrow> amount_text \<Rightarrow> error + send_receipt"

section \<open>Wallet service\<close>

text \<open>
  \<open>INSERT INTO wallets\<close> under the schema's keys: the primary key \<open>id\<close> and
  \<open>UNIQUE(user_id, wallet_name)\<close>. Neither constraint looks at \<open>status\<close>.
\<close>

definition insert_wallet :: "db \<Rightarrow> wallet_row \<Rightarrow> error + db" where
  "insert_wallet d row =
     (if \<exists>w \<in> set (wallets d). wallet_id w = wallet_id row then Inl UniqueViolation
      else if \<exists>w \<in> set (wallets d).
                user_id w = user_id row \<and> wallet_name w = wallet_name row
           then Inl UniqueViolation
      else Inr (d\<lparr>wallets := wallets d @ [row]\<rparr>))"

text \<open>
  \<open>INSERT INTO transactions\<close>: primary key \<open>id\<close> and \<open>transaction_hash UNIQUE\<close>.
\<close>

definition insert_transaction :: "db \<Rightarrow> tx_row \<Rightarrow> error + db" where
  "insert_transaction d row =
     (if \<exists>t \<in> set (transactions d). tx_id t = tx_id row then Inl UniqueViolation
      else if \<exists>t \<in> set (transactions d). transaction_hash t = transaction_hash row
           then Inl UniqueViolation
      else Inr (d\<lparr>transactions := transactions d @ [row]\<rparr>))"

record balance_update =
  bu_walletId :: uuid
  bu_address :: string
  bu_balance_usdc :: rat
  bu_balance_wei :: nat

text \<open>
  \<open>UPDATE wallets SET balance_usdc = $1, last_balance_update = NOW() WHERE id = $2\<close>.
\<close>

definition set_wallet_balance :: "db \<Rightarrow> uuid \<Rightarrow> rat \<Rightarrow> timestamp \<Rightarrow> db" where
  "set_wallet_balance d walletId b now =
     d\<lparr>wallets :=
         map (\<lambda>x. if wallet_id x = walletId
                  then x\<lparr>balance_usdc := Some b, last_balance_update := Some now\<rparr>
                  else x)
             (wallets d)\<rparr>"

definition updateWalletBalance ::
  "chain \<Rightarrow> timestamp \<Rightarrow> db \<Rightarrow> uuid \<Rightarrow> (error + balance_update) \<times> db" where
  "updateWalletBalance ch now d walletId =
     (case filter (\<lambda>w. wallet_id w = walletId) (wallets d) of
        [] \<Rightarrow> (Inl WalletNotFound, d)
      | w # _ \<Rightarrow>
          (case chain_getUSDCBalance ch (address w) of
             Inl e \<Rightarrow> (Inl FailedToGetUSDCBalance, d)
           | Inr balanceData \<Rightarrow>
               (Inr \<lparr>bu_walletId = walletId, bu_address = address w,
                     bu_balance_usdc = ub_balance balanceData,
                     bu_balance_wei = ub_balanceWei balanceData\<rparr>,
                set_wallet_balance d walletId (ub_balance balanceData) now)))"

record wallet_view =
  wv_id :: uuid
  wv_address :: string
  wv_walletName :: string
  wv_isPrimary :: bool
  wv_balance :: rat
  wv_createdAt :: timestamp

text \<open>
  The row that \<open>INSERT INTO wallets (user_id, white_label_client_id, wallet_name,
  address, encrypted_private_key, is_primary)\<close> stores: the six values given, the
  identifier and creation time assigned by the database, and the column defaults
  (balance 0, status active).
\<close>

definition new_wallet_row ::
  "uuid \<Rightarrow> timestamp \<Rightarrow> uuid \<Rightarrow> uuid option \<Rightarrow> string \<Rightarrow> string \<Rightarrow> encrypted_key \<Rightarrow> bool
     \<Rightarrow> wallet_row" where
  "new_wallet_row newId now userId whitelabelClientId walletName walletAddress
       encryptedPrivateKey isPrimary =
     \<lparr>wallet_id = newId, user_id = userId, white_label_client_id = whitelabelClientId,
      wallet_name = walletName, address = walletAddress,
      encrypted_private_key = JSON_stringify encryptedPrivateKey, is_primary = isPrimary,
      balance_usdc = Some 0, last_balance_update = None, wallet_created_at = now,
      wallet_status = Active\<rparr>"

text \<open>
  \<open>createWallet(userId, walletName, whitelabelClientId)\<close>. The identifier and the
  creation time that the database assigns to the new row are the inputs \<open>newId\<close> and
  \<open>now\<close>. A failure after the insert (the balance refresh) raises with the row in place.
\<close>

definition createWallet ::
  "chain \<Rightarrow> uuid \<Rightarrow> timestamp \<Rightarrow> db \<Rightarrow> uuid \<Rightarrow> string \<Rightarrow> uuid option
     \<Rightarrow> (error + wallet_view) \<times> db" where
  "createWallet ch newId now d userId walletName whitelabelClientId =
     (if filter (\<lambda>w. user_id w = userId \<and> wallet_name w = walletName) (wallets d) \<noteq> []
      then (Inl WalletNameExists, d)
      else
        (case chain_generateWallet ch of
           Inl e \<Rightarrow> (Inl FailedToGenerateWallet, d)
         | Inr (walletAddress, encryptedPrivateKey) \<Rightarrow>
             (let isPrimary = (length (filter (\<lambda>w. user_id w = userId) (wallets d)) = 0);
                  row = new_wallet_row newId now userId whitelabelClientId walletName
                          walletAddress encryptedPrivateKey isPrimary
              in (case insert_wallet d row of
                    Inl e \<Rightarrow> (Inl e, d)
                  | Inr d1 \<Rightarrow>
                      (case updateWalletBalance ch now d1 newId of
                         (Inl e, d2) \<Rightarrow> (Inl e, d2)
                       | (Inr bal, d2) \<Rightarrow>
                           (Inr \<lparr>wv_id = newId, wv_address = walletAddress,
                                 wv_walletName = walletName, wv_isPrimary = isPrimary,
                                 wv_balance = bu_balance_usdc bal,
                                 wv_createdAt = now\<rparr>, d2))))))"

record send_view =
  sv_transactionId :: uuid
  sv_transactionHash :: string
  sv_from :: string
  sv_to :: string
  sv_amount :: amount_text
  sv_status :: tx_status
  sv_createdAt :: timestamp

text \<open>
  One call of \<open>blockchainService.sendUSDC\<close>: the key, the recipient and the amount it
  was given. The list of these calls is the record of what was submitted to the chain.
\<close>

type_synonym transfer = "key_json \<times> string \<times> amount_text"

text \<open>
  \<open>Number.parseFloat(wallet.balance_usdc || "0")\<close>: the column is a decimal that
  arrives as text, a NULL reads as zero, and the result is the nearest double.
\<close>

definition cached_balance :: "wallet_row \<Rightarrow> jsnum" where
  "cached_balance w = round_double (case balance_usdc w of None \<Rightarrow> 0 | Some b \<Rightarrow> b)"

text \<open>
  A value stored in a \<open>DECIMAL(20,6)\<close> column: rounded to six decimals, half away from
  zero, and refused when more than fourteen digits remain before the point.
\<close>

definition numeric_20_6 :: "rat \<Rightarrow> rat option" where
  "numeric_20_6 x =
     (let scaled = x * 1000000;
          n = (if 0 \<le> scaled then \<lfloor>scaled + 1 / 2\<rfloor> else - \<lfloor>- scaled + 1 / 2\<rfloor>)
      in if 10 ^ 20 \<le> \<bar>n\<bar> then None else Some (of_int n / 1000000))"

text \<open>
  \<open>sendUSDC(walletId, userId, toAddress, amount, memo)\<close>. The amount is the text that
  came in; the two balance checks compare doubles. The state is the database together
  with the list of transfers submitted so far. The insert stores the amount in a
  decimal column, which refuses text that is not a number.
\<close>

definition sendUSDC ::
  "chain \<Rightarrow> uuid \<Rightarrow> timestamp \<Rightarrow> db \<Rightarrow> transfer list \<Rightarrow> uuid \<Rightarrow> uuid \<Rightarrow> string \<Rightarrow> amount_text
     \<Rightarrow> string option \<Rightarrow> (error + send_view) \<times> db \<times> transfer list" where
  "sendUSDC ch newId now d submitted walletId userId toAddress amt memoText =
     (if \<not> chain_isValidAddress ch toAddress then (Inl InvalidRecipientAddress, d, submitted)
      else
        (case filter (\<lambda>w. wallet_id w = walletId \<and> user_id w = userId \<and> wallet_status w = Active)
                (wallets d) of
           [] \<Rightarrow> (Inl WalletNotFoundOrAccessDenied, d, submitted)
         | wallet # _ \<Rightarrow>
        (case JSON_parse (encrypted_private_key wallet) of
           Inl e \<Rightarrow> (Inl e, d, submitted)
         | Inr encryptedPrivateKey \<Rightarrow>
             (if js_lt (cached_balance wallet) (parseFloat amt)
              then (Inl InsufficientUSDCBalance, d, submitted)
              else
                (case chain_getETHBalance ch (address wallet) of
                   Inl e \<Rightarrow> (Inl FailedToGetETHBalance, d, submitted)
                 | Inr ethBalance \<Rightarrow>
                     (if js_lt (round_double ethBalance) (round_double (1 / 1000))
                      then (Inl InsufficientETHBalanceForGas, d, submitted)
                      else
                        (let submitted' = submitted @ [(encryptedPrivateKey, toAddress, amt)]
                         in (case chain_sendUSDC ch encryptedPrivateKey toAddress amt of
                               Inl e \<Rightarrow> (Inl FailedToSendUSDC, d, submitted')
                             | Inr txResult \<Rightarrow>
                                 (case (case amt of Decimal a \<Rightarrow> numeric_20_6 a
                                                  | NotANumber \<Rightarrow> None) of
                                    None \<Rightarrow> (Inl DatabaseError, d, submitted')
                                  | Some stored \<Rightarrow>
                                      (case insert_transaction d
                                              \<lparr>tx_id = newId, tx_wallet_id = walletId,
                                               transaction_hash = sr_transactionHash txResult,
                                               from_address = address wallet,
                                               to_address = toAddress, amount = stored,
                                               gas_used = sr_gasUsed txResult,
                                               gas_price = sr_gasPrice txResult,
                                               transaction_type = Send, status = Pending,
                                               confirmations = 0, memo = memoText,
                                               created_at = now, confirmed_at = None\<rparr> of
                                         Inl e \<Rightarrow> (Inl e, d, submitted')
                                       | Inr d' \<Rightarrow>
                                           (Inr \<lparr>sv_transactionId = newId,
                                                 sv_transactionHash = sr_transactionHash txResult,
                                                 sv_from = address wallet, sv_to = toAddress,
                                                 sv_amount = amt, sv_status = Pending,
                                                 sv_createdAt = now\<rparr>, d', submitted')))))))))))"

text \<open>A sample adapter: every address is valid, every call answers.\<close>

definition example_chain :: chain where
  "example_chain =
     \<lparr>chain_isValidAddress = (\<lambda>a. True),
      chain_generateWallet = Inr (''0xC'', \<lparr>encrypted = ''k'', iv = ''00'', authTag = ''g''\<rparr>),
      chain_getUSDCBalance = (\<lambda>a. Inr \<lparr>ub_balance = 0, ub_balanceWei = 0\<rparr>),
      chain_getETHBalance = (\<lambda>a. Inr 1),
      chain_sendUSDC = (\<lambda>k a n. Inr \<lparr>sr_transactionHash = replicate 66 CHR ''b'',
                                       sr_gasUsed = ''21000'', sr_gasPrice = ''1''\<rparr>)\<rparr>"

text \<open>The invariant behind the name check: no two rows share owner and name.\<close>

definition names_unique :: "db \<Rightarrow> bool" where
  "names_unique d = distinct (map (\<lambda>w. (user_id w, wallet_name w)) (wallets d))"

text \<open>A second sample table: the user's only wallet has been soft-deleted.\<close>

definition example_deleted_db :: db where
  "example_deleted_db =
     \<lparr>wallets = [example_wallet\<lparr>wallet_status := Deleted\<rparr>], transactions = []\<rparr>"

definition example_empty_db :: db where
  "example_empty_db = \<lparr>wallets = [], transactions = []\<rparr>"

definition example_first_view :: wallet_view where
  "example_first_view =
     \<lparr>wv_id = 1, wv_address = ''0xC'', wv_walletName = ''main'', wv_isPrimary = True,
      wv_balance = 0, wv_createdAt = 5\<rparr>"

definition example_first_row :: wallet_row where
  "example_first_row =
     \<lparr>wallet_id = 1, user_id = 7, white_label_client_id = None, wallet_name = ''main'',
      address = ''0xC'',
      encrypted_private_key = Json (KeyObject \<lparr>encrypted = ''k'', iv = ''00'', authTag = ''g''\<rparr>),
      is_primary = True, balance_usdc = Some 0, last_balance_update = Some 5,
      wallet_created_at = 5, wallet_status = Active\<rparr>"

definition example_second_view :: wallet_view where
  "example_second_view =
     \<lparr>wv_id = 2, wv_address = ''0xC'', wv_walletName = ''savings'', wv_isPrimary = False,
      wv_balance = 0, wv_createdAt = 6\<rparr>"

definition example_second_row :: wallet_row where
  "example_second_row =
     \<lparr>wallet_id = 2, user_id = 7, white_label_client_id = None, wallet_name = ''savings'',
      address = ''0xC'',
      encrypted_private_key = Json (KeyObject \<lparr>encrypted = ''k'', iv = ''00'', authTag = ''g''\<rparr>),
      is_primary = False, balance_usdc = Some 0, last_balance_update = Some 6,
      wallet_created_at = 6, wallet_status = Active\<rparr>"

section \<open>Primary wallet\<close>

text \<open>\<open>UPDATE wallets SET is_primary = false WHERE user_id = $1\<close>.\<close>

definition clear_primary :: "db \<Rightarrow> uuid \<Rightarrow> db" where
  "clear_primary d userId =
     d\<lparr>wallets := map (\<lambda>w. if user_id w = userId then w\<lparr>is_primary := False\<rparr> else w)
                      (wallets d)\<rparr>"

text \<open>\<open>UPDATE wallets SET is_primary = true WHERE id = $1\<close>.\<close>

definition set_primary :: "db \<Rightarrow> uuid \<Rightarrow> db" where
  "set_primary d walletId =
     d\<lparr>wallets := map (\<lambda>w. if wallet_id w = walletId then w\<lparr>is_primary := True\<rparr> else w)
                      (wallets d)\<rparr>"

text \<open>\<open>SELECT id FROM wallets WHERE id = $1 AND user_id = $2\<close>.\<close>

definition select_owned :: "db \<Rightarrow> uuid \<Rightarrow> uuid \<Rightarrow> wallet_row list" where
  "select_owned d walletId userId =
     filter (\<lambda>w. wallet_id w = walletId \<and> user_id w = userId) (wallets d)"

text \<open>
  \<open>setPrimaryWallet(walletId, userId)\<close> run from start to end with nothing in between:
  the ownership check, then the two updates, each its own statement on the pool.
\<close>

definition setPrimaryWallet :: "db \<Rightarrow> uuid \<Rightarrow> uuid \<Rightarrow> (error + unit) \<times> db" where
  "setPrimaryWallet d walletId userId =
     (if select_owned d walletId userId = [] then (Inl WalletNotFoundOrAccessDenied, d)
      else (Inr (), set_primary (clear_primary d userId) walletId))"

text \<open>
  The same method statement by statement. A call in flight is its two arguments and the
  statement it will run next; every \<open>await query(...)\<close> is a point where another
  request's statement can run. \<open>exec_statement\<close> runs the next statement of one call.
\<close>

datatype pc = AtVerify | AtClear | AtSet | Returned | Raised

type_synonym call = "uuid \<times> uuid \<times> pc"

fun exec_statement :: "db \<Rightarrow> call \<Rightarrow> db \<times> call" where
  "exec_statement d (walletId, userId, AtVerify) =
     (if select_owned d walletId userId = [] then (d, (walletId, userId, Raised))
      else (d, (walletId, userId, AtClear)))"
| "exec_statement d (walletId, userId, AtClear) =
     (clear_primary d userId, (walletId, userId, AtSet))"
| "exec_statement d (walletId, userId, AtSet) =
     (set_primary d walletId, (walletId, userId, Returned))"
| "exec_statement d (walletId, userId, Returned) = (d, (walletId, userId, Returned))"
| "exec_statement d (walletId, userId, Raised) = (d, (walletId, userId, Raised))"

fun finished :: "call \<Rightarrow> bool" where
  "finished (walletId, userId, p) = (p = Returned \<or> p = Raised)"

text \<open>
  One step of the system: some call that has not finished runs its next statement. The
  states a reader of the table can observe are the states reachable by these steps.
\<close>

inductive step :: "db \<times> call list \<Rightarrow> db \<times> call list \<Rightarrow> bool" where
  run: "i < length cs \<Longrightarrow> \<not> finished (cs ! i) \<Longrightarrow> exec_statement d (cs ! i) = (d', c') \<Longrightarrow>
          step (d, cs) (d', cs[i := c'])"

text \<open>The primary wallets of a user.\<close>

definition primaries :: "db \<Rightarrow> uuid \<Rightarrow> wallet_row list" where
  "primaries d userId = filter (\<lambda>w. user_id w = userId \<and> is_primary w) (wallets d)"

text \<open>A sample table: one user with a primary and a second wallet.\<close>

definition example_two_wallets :: db where
  "example_two_wallets =
     \<lparr>wallets = [example_wallet, example_wallet\<lparr>wallet_id := 2, wallet_name := ''savings'',
                                                 is_primary := False\<rparr>],
      transactions = []\<rparr>"

section \<open>White-label middleware\<close>

text \<open>
  The tenant attached to the request by \<open>applyWhitelabelConfig\<close>. \<open>featuresConfig\<close> is
  a JSON column: the feature list and the two limits are each present or absent. A
  limit that is present is a JSON number, kept as the value of its numeral; reading it
  gives the nearest double.
\<close>

record features_config =
  fc_features :: "string list option"
  dailyTransactionLimit :: "rat option"
  monthlyTransactionLimit :: "rat option"

record client_config =
  cc_id :: uuid
  cc_clientName :: string
  cc_featuresConfig :: "features_config option"

text \<open>
  The send request as the middleware chain sees it: the resolved tenant, the
  authenticated user, the route parameter and the body. \<open>sq_amount\<close> is the
  amount as it came in; \<open>sq_fields_ok\<close> is the verdict of the express-validator
  checks on the raw text other than the address check.
\<close>

record send_request =
  sq_whitelabelClient :: "client_config option"
  sq_user :: "uuid option"
  sq_walletId :: uuid
  sq_toAddress :: string
  sq_amount :: amount_text
  sq_memo :: "string option"
  sq_fields_ok :: bool

datatype limit_response =
    DailyLimitExceeded jsnum jsnum jsnum
  | MonthlyLimitExceeded jsnum jsnum jsnum

datatype middleware_result = Next | Status400 limit_response | Status403 string

text \<open>
  \<open>checkFeaturePermission(feature)\<close>: no tenant allows everything; otherwise the
  feature must be in \<open>featuresConfig?.features || []\<close>.
\<close>

definition checkFeaturePermission :: "string \<Rightarrow> send_request \<Rightarrow> middleware_result" where
  "checkFeaturePermission feature req =
     (case sq_whitelabelClient req of
        None \<Rightarrow> Next
      | Some clientConfig \<Rightarrow>
          (let allowedFeatures =
                 (case cc_featuresConfig clientConfig of
                    None \<Rightarrow> []
                  | Some featuresConfig \<Rightarrow>
                      (case fc_features featuresConfig of None \<Rightarrow> [] | Some fs \<Rightarrow> fs))
           in if feature \<notin> set allowedFeatures then Status403 feature else Next))"

text \<open>
  \<open>value || fallback\<close> on a limit: an absent limit and a limit that reads as zero are
  both falsy and give the fallback.
\<close>

definition or_default :: "rat option \<Rightarrow> rat \<Rightarrow> jsnum" where
  "or_default v fallback =
     (case v of
        None \<Rightarrow> round_double fallback
      | Some x \<Rightarrow> if round_double x = Num 0 then round_double fallback else round_double x)"

text \<open>
  The window bounds computed from \<open>new Date()\<close>: local midnight, the next midnight,
  the first of the month and the first of the next month.
\<close>

record calendar =
  today :: timestamp
  tomorrow :: timestamp
  monthStart :: timestamp
  monthEnd :: timestamp

text \<open>
  \<open>SELECT COALESCE(SUM(t.amount), 0) FROM transactions t JOIN wallets w ON
  t.wallet_id = w.id WHERE w.user_id = $1 AND w.white_label_client_id = $2 AND
  t.created_at >= $3 AND t.created_at < $4 AND t.status != 'failed'\<close>.
\<close>

definition sum_transactions :: "db \<Rightarrow> uuid \<Rightarrow> uuid \<Rightarrow> timestamp \<Rightarrow> timestamp \<Rightarrow> rat" where
  "sum_transactions d userId clientId lo hi =
     sum_list [amount t. t \<leftarrow> transactions d, w \<leftarrow> wallets d,
                 tx_wallet_id t = wallet_id w,
                 user_id w = userId \<and> white_label_client_id w = Some clientId \<and>
                 lo \<le> created_at t \<and> created_at t < hi \<and> status t \<noteq> Failed]"

text \<open>
  Whether each of the two queries raises (the pool is down, the statement times out) is
  decided outside the program. A query that answers gives the exact decimal sum as
  text, and \<open>Number.parseFloat\<close> makes the nearest double of it.
\<close>

record query_faults =
  daily_query_raises :: bool
  monthly_query_raises :: bool

definition limit_query :: "bool \<Rightarrow> rat \<Rightarrow> error + jsnum" where
  "limit_query raises amountSum =
     (if raises then Inl DatabaseError else Inr (round_double amountSum))"

text \<open>
  \<open>checkTransactionLimits\<close>. Every \<open>Inl\<close> of a query is the catch branch:
  \<open>next()\<close>, "continue without limit check".
\<close>

definition checkTransactionLimits ::
  "query_faults \<Rightarrow> calendar \<Rightarrow> db \<Rightarrow> send_request \<Rightarrow> middleware_result" where
  "checkTransactionLimits faults cal d req =
     (case sq_whitelabelClient req of
        None \<Rightarrow> Next
      | Some clientConfig \<Rightarrow>
     (case sq_user req of
        None \<Rightarrow> Next
      | Some userId \<Rightarrow>
     (case cc_featuresConfig clientConfig of
        None \<Rightarrow> Next
      | Some featuresConfig \<Rightarrow>
          (let dailyLimit = or_default (dailyTransactionLimit featuresConfig) 10000;
               monthlyLimit = or_default (monthlyTransactionLimit featuresConfig) 100000
           in (case limit_query (daily_query_raises faults)
                      (sum_transactions d userId (cc_id clientConfig) (today cal) (tomorrow cal)) of
                 Inl e \<Rightarrow> Next
               | Inr dailyTotal \<Rightarrow>
                   if js_gt (js_add dailyTotal (parseFloat (sq_amount req))) dailyLimit
                   then Status400 (DailyLimitExceeded dailyLimit dailyTotal
                                     (js_sub dailyLimit dailyTotal))
                   else
                     (case limit_query (monthly_query_raises faults)
                             (sum_transactions d userId (cc_id clientConfig)
                                (monthStart cal) (monthEnd cal)) of
                        Inl e \<Rightarrow> Next
                      | Inr monthlyTotal \<Rightarrow>
                          if js_gt (js_add monthlyTotal (parseFloat (sq_amount req))) monthlyLimit
                          then Status400 (MonthlyLimitExceeded monthlyLimit monthlyTotal
                                            (js_sub monthlyLimit monthlyTotal))
                          else Next))))))"

section \<open>Send route: \<open>POST /:walletId/send\<close>\<close>

datatype route_response =
    Json200Send send_view
  | Json400Message error
  | Json400Validation
  | Json400Limit limit_response
  | Json403Feature string

text \<open>
  The route's own handler: the validation verdict, then \<open>walletService.sendUSDC\<close>; an
  error raised inside becomes a 400 with its message.
\<close>

definition sendHandler ::
  "chain \<Rightarrow> uuid \<Rightarrow> timestamp \<Rightarrow> db \<Rightarrow> transfer list \<Rightarrow> send_request
     \<Rightarrow> route_response \<times> db \<times> transfer list" where
  "sendHandler ch newId now d submitted req =
     (if \<not> (chain_isValidAddress ch (sq_toAddress req) \<and> sq_fields_ok req)
      then (Json400Validation, d, submitted)
      else
        (case sq_user req of
           None \<Rightarrow> (Json400Message TypeError, d, submitted)
         | Some userId \<Rightarrow>
             (case sendUSDC ch newId now d submitted (sq_walletId req) userId (sq_toAddress req)
                     (sq_amount req) (sq_memo req) of
                (Inl e, d', submitted') \<Rightarrow> (Json400Message e, d', submitted')
              | (Inr transaction, d', submitted') \<Rightarrow> (Json200Send transaction, d', submitted'))))"

text \<open>
  The chain registered for the route: \<open>checkFeaturePermission("send")\<close>,
  \<open>checkTransactionLimits\<close>, the validators and the handler. A middleware that answers
  ends the request; the next one runs only after \<open>next()\<close>.
\<close>

definition sendRoute ::
  "chain \<Rightarrow> query_faults \<Rightarrow> calendar \<Rightarrow> uuid \<Rightarrow> timestamp \<Rightarrow> db \<Rightarrow> transfer list \<Rightarrow> send_request
     \<Rightarrow> route_response \<times> db \<times> transfer list" where
  "sendRoute ch faults cal newId now d submitted req =
     (case checkFeaturePermission ''send'' req of
        Status403 f \<Rightarrow> (Json403Feature f, d, submitted)
      | Status400 r \<Rightarrow> (Json400Limit r, d, submitted)
      | Next \<Rightarrow>
          (case checkTransactionLimits faults cal d req of
             Status400 r \<Rightarrow> (Json400Limit r, d, submitted)
           | Status403 f \<Rightarrow> (Json403Feature f, d, submitted)
           | Next \<Rightarrow> sendHandler ch newId now d submitted req))"

text \<open>
  Sample tenants and sample requests: user 7 sends an amount from wallet 1 under
  tenant 3, whose daily limit is given.
\<close>

definition example_client :: "rat option \<Rightarrow> client_config" where
  "example_client limit =
     \<lparr>cc_id = 3, cc_clientName = ''acme'',
      cc_featuresConfig = Some \<lparr>fc_features = Some [''send''], dailyTransactionLimit = limit,
                                monthlyTransactionLimit = None\<rparr>\<rparr>"

definition example_request :: "rat option \<Rightarrow> rat \<Rightarrow> send_request" where
  "example_request limit a =
     \<lparr>sq_whitelabelClient = Some (example_client limit), sq_user = Some 7, sq_walletId = 1,
      sq_toAddress = ''0xB'', sq_amount = Decimal a, sq_memo = None, sq_fields_ok = True\<rparr>"


text \<open>
  The sample table with the key text of its one wallet replaced by text that is not
  JSON.
\<close>

definition example_db_key_text :: "string \<Rightarrow> db" where
  "example_db_key_text x =
     \<lparr>wallets = [example_wallet\<lparr>encrypted_private_key := NotJson x\<rparr>],
      transactions = [example_tx]\<rparr>"

text \<open>The sample table with the balance of its one wallet replaced.\<close>

definition example_db_balance :: "rat \<Rightarrow> db" where
  "example_db_balance b =
     \<lparr>wallets = [example_wallet\<lparr>balance_usdc := Some b\<rparr>], transactions = [example_tx]\<rparr>"

definition example_calendar :: calendar where
  "example_calendar = \<lparr>today = 0, tomorrow = 10, monthStart = 0, monthEnd = 100\<rparr>"

section \<open>Webhook service\<close>

datatype webhook_status = WebhookActive | WebhookInactive

record webhook =
  wh_id :: uuid
  wh_client_id :: "uuid option"
  wh_url :: string
  wh_events :: "string list"
  wh_secret :: "string option"
  wh_status :: webhook_status

datatype delivery_status = DeliverySuccess | DeliveryFailed

record webhook_log =
  wl_webhook_id :: uuid
  wl_event :: string
  wl_status :: delivery_status
  wl_status_code :: int
  wl_error_message :: "string option"

text \<open>
  What \<open>axios.post\<close> does with one request: it resolves with the response status, or
  it rejects with an error that carries a response status when the target answered and
  none when it did not (refused connection, the 10 second timeout).
\<close>

datatype http_outcome = Resolved int | Rejected "int option" string

text \<open>
  The world around one \<open>sendWebhook\<close> call: whether the SELECT raises; for each
  registration, the signature \<open>generateSignature\<close> computes over the serialized payload
  (\<open>Inl\<close> when \<open>crypto.createHmac\<close> raises on the stored secret), what the POST to it
  does, and whether the INSERT into \<open>webhook_logs\<close> for it raises.
\<close>

record webhook_env =
  select_raises :: bool
  signature :: "webhook \<Rightarrow> string + string"
  http_post :: "webhook \<Rightarrow> http_outcome"
  log_raises :: "uuid \<Rightarrow> bool"

text \<open>
  The state a call works on: the \<open>webhook_logs\<close> table and the list of registrations
  that have been POSTed to.
\<close>

record delivery_state =
  webhook_logs :: "webhook_log list"
  posts :: "uuid list"

text \<open>
  \<open>logWebhookDelivery\<close>: the INSERT, inside a try whose catch only logs.
\<close>

definition logWebhookDelivery ::
  "webhook_env \<Rightarrow> delivery_state \<Rightarrow> uuid \<Rightarrow> string \<Rightarrow> delivery_status \<Rightarrow> int \<Rightarrow> string option
     \<Rightarrow> delivery_state" where
  "logWebhookDelivery env st webhookId event st_status statusCode errorMessage =
     (if log_raises env webhookId then st
      else st\<lparr>webhook_logs := webhook_logs st @
                 [\<lparr>wl_webhook_id = webhookId, wl_event = event, wl_status = st_status,
                   wl_status_code = statusCode, wl_error_message = errorMessage\<rparr>]\<rparr>)"

text \<open>
  \<open>deliverWebhook\<close>: sign, POST, log success; any error raised on the way is caught and
  logged as failed with \<open>error.response?.status || 0\<close>.
\<close>

definition deliverWebhook :: "webhook_env \<Rightarrow> delivery_state \<Rightarrow> webhook \<Rightarrow> string \<Rightarrow> delivery_state" where
  "deliverWebhook env st wh event =
     (case signature env wh of
        Inl message \<Rightarrow> logWebhookDelivery env st (wh_id wh) event DeliveryFailed 0 (Some message)
      | Inr sig \<Rightarrow>
          (let st' = st\<lparr>posts := posts st @ [wh_id wh]\<rparr>
           in (case http_post env wh of
                 Resolved code \<Rightarrow>
                   logWebhookDelivery env st' (wh_id wh) event DeliverySuccess code None
               | Rejected response message \<Rightarrow>
                   logWebhookDelivery env st' (wh_id wh) event DeliveryFailed
                     (case response of None \<Rightarrow> 0 | Some code \<Rightarrow> if code = 0 then 0 else code)
                     (Some message))))"

text \<open>
  \<open>SELECT * FROM webhooks WHERE client_id = $1 AND status = 'active' AND
  events::jsonb ? $2\<close>.
\<close>

definition select_webhooks :: "webhook list \<Rightarrow> uuid \<Rightarrow> string \<Rightarrow> webhook list" where
  "select_webhooks whs clientId event =
     filter (\<lambda>w. wh_client_id w = Some clientId \<and> wh_status w = WebhookActive \<and>
                 event \<in> set (wh_events w)) whs"

text \<open>The loop \<open>for (const webhook of webhooks.rows) await this.deliverWebhook(...)\<close>.\<close>

fun deliver_each :: "webhook_env \<Rightarrow> delivery_state \<Rightarrow> webhook list \<Rightarrow> string \<Rightarrow> delivery_state" where
  "deliver_each env st [] event = st"
| "deliver_each env st (wh # rest) event = deliver_each env (deliverWebhook env st wh event) rest event"

text \<open>\<open>sendWebhook(clientId, event, data)\<close>; a raising SELECT is caught and logged.\<close>

definition sendWebhook ::
  "webhook_env \<Rightarrow> delivery_state \<Rightarrow> webhook list \<Rightarrow> uuid \<Rightarrow> string \<Rightarrow> delivery_state" where
  "sendWebhook env st whs clientId event =
     (if select_raises env then st
      else deliver_each env st (select_webhooks whs clientId event) event)"

text \<open>
  The row that records one delivery: success with the response status, or failed with
  the status of the error's response, 0 when there is none.
\<close>

definition delivery_row :: "webhook_env \<Rightarrow> string \<Rightarrow> webhook \<Rightarrow> webhook_log" where
  "delivery_row env event wh =
     (case signature env wh of
        Inl message \<Rightarrow>
          \<lparr>wl_webhook_id = wh_id wh, wl_event = event, wl_status = DeliveryFailed,
           wl_status_code = 0, wl_error_message = Some message\<rparr>
      | Inr sig \<Rightarrow>
          (case http_post env wh of
             Resolved code \<Rightarrow>
               \<lparr>wl_webhook_id = wh_id wh, wl_event = event, wl_status = DeliverySuccess,
                wl_status_code = code, wl_error_message = None\<rparr>
           | Rejected response message \<Rightarrow>
               \<lparr>wl_webhook_id = wh_id wh, wl_event = event, wl_status = DeliveryFailed,
                wl_status_code = (case response of None \<Rightarrow> 0 | Some code \<Rightarrow> code),
                wl_error_message = Some message\<rparr>))"

text \<open>Two sample registrations of client 4 for one event; the first target is down.\<close>

definition example_webhooks :: "webhook list" where
  "example_webhooks =
     [\<lparr>wh_id = 1, wh_client_id = Some 4, wh_url = ''https://a.example/hook'',
       wh_events = [''wallet.created''], wh_secret = Some ''s1'', wh_status = WebhookActive\<rparr>,
      \<lparr>wh_id = 2, wh_client_id = Some 4, wh_url = ''https://b.example/hook'',
       wh_events = [''wallet.created'', ''transaction.created''], wh_secret = Some ''s2'',
       wh_status = WebhookActive\<rparr>]"

definition example_webhook_env :: "(uuid \<Rightarrow> bool) \<Rightarrow> webhook_env" where
  "example_webhook_env logFails =
     \<lparr>select_raises = False,
      signature = (\<lambda>w. case wh_secret w of None \<Rightarrow> Inl ''key'' | Some s \<Rightarrow> Inr s),
      http_post = (\<lambda>w. if wh_id w = 1 then Rejected None ''timeout'' else Resolved 200),
      log_raises = logFails\<rparr>"

section \<open>Key encryption and backup encryption\<close>

text \<open>
  Node's \<open>crypto\<close> module is outside the program. What the two services use of it is
  taken as a parameter: \<open>gcm_encrypt\<close> is \<open>createCipher("aes-256-gcm", password)\<close>
  followed by \<open>update\<close>, \<open>final\<close> and \<open>getAuthTag\<close>, giving the ciphertext and the tag
  as hex text; \<open>gcm_decrypt\<close> is \<open>createDecipher("aes-256-gcm", password)\<close> followed
  by \<open>setAuthTag\<close>, \<open>update\<close> and \<open>final\<close>. \<open>None\<close> is a call that raises. The cipher
  is built from the password alone: neither call takes an IV. The type of the password
  is the process secret (possibly unset) for wallet keys and the 32 bytes of a derived
  key for backups.
\<close>

record 'p gcm =
  gcm_encrypt :: "'p \<Rightarrow> string \<Rightarrow> (string \<times> string) option"
  gcm_decrypt :: "'p \<Rightarrow> string \<Rightarrow> string \<Rightarrow> string option"

text \<open>
  The law a cipher is expected to satisfy: decrypting what was encrypted, under the same
  password and with the tag that came with it, gives the plaintext back.
\<close>

definition gcm_sound :: "'p gcm \<Rightarrow> bool" where
  "gcm_sound lib =
     (\<forall>k m c t. gcm_encrypt lib k m = Some (c, t) \<longrightarrow> gcm_decrypt lib k c t = Some m)"


text \<open>
  \<open>encryptPrivateKey(privateKey)\<close>. \<open>ivHex\<close> is the hex text of the 16 bytes drawn by
  \<open>crypto.randomBytes(16)\<close>; it is stored and not used.
\<close>

definition encryptPrivateKey ::
  "string option gcm \<Rightarrow> string option \<Rightarrow> string \<Rightarrow> string \<Rightarrow> error + encrypted_key" where
  "encryptPrivateKey lib encryptionKey ivHex privateKey =
     (case gcm_encrypt lib encryptionKey privateKey of
        None \<Rightarrow> Inl FailedToEncryptPrivateKey
      | Some (enc, tag) \<Rightarrow> Inr \<lparr>encrypted = enc, iv = ivHex, authTag = tag\<rparr>)"

text \<open>\<open>decryptPrivateKey(encryptedData)\<close>: reads \<open>authTag\<close> and \<open>encrypted\<close>.\<close>

definition decryptPrivateKey ::
  "string option gcm \<Rightarrow> string option \<Rightarrow> encrypted_key \<Rightarrow> error + string" where
  "decryptPrivateKey lib encryptionKey encryptedData =
     (case gcm_decrypt lib encryptionKey (encrypted encryptedData) (authTag encryptedData) of
        None \<Rightarrow> Inl FailedToDecryptPrivateKey
      | Some decrypted \<Rightarrow> Inr decrypted)"


type_synonym pbkdf2 = "string \<Rightarrow> string \<Rightarrow> 256 word"






text \<open>
  Stand-ins for the library, to run the services on: ciphers that leave the text as it
  is and use a mark of the password as the tag, a key derivation with two keys, and
  rounds that look at the first seven bytes of the prepared key.
\<close>

definition example_wallet_gcm :: "string option gcm" where
  "example_wallet_gcm =
     \<lparr>gcm_encrypt = (\<lambda>k m. case k of None \<Rightarrow> None | Some s \<Rightarrow> Some (m, s)),
      gcm_decrypt = (\<lambda>k c t. case k of None \<Rightarrow> None
                                | Some s \<Rightarrow> if t = s then Some c else None)\<rparr>"




chapter \<open>Properties\<close>

section \<open>Reconciliation: the stored status follows the adapter\<close>

lemma transactions_update_tx_status:
  "transactions (update_tx_status d h btx now) =
     map (\<lambda>t. if transaction_hash t = h
              then t\<lparr>status := chain_status btx,
                     confirmations := chain_confirmations btx,
                     confirmed_at := (if chain_status btx = Confirmed then Some now else None)\<rparr>
              else t)
         (transactions d)"
  unfolding update_tx_status_def by simp

lemma select_tx_for_user_mem:
  assumes "r \<in> set (select_tx_for_user d h u)"
  shows "r \<in> set (transactions d) \<and> transaction_hash r = h"
  using assms unfolding select_tx_for_user_def by auto

lemma update_tx_status_hash:
  assumes a: "t \<in> set (transactions (update_tx_status d h btx now))"
    and h: "transaction_hash t = h"
  shows "status t = chain_status btx"
proof -
  from a obtain t0 where t: "t = (if transaction_hash t0 = h
                  then t0\<lparr>status := chain_status btx,
                         confirmations := chain_confirmations btx,
                         confirmed_at :=
                           (if chain_status btx = Confirmed then Some now else None)\<rparr>
                  else t0)"
    unfolding transactions_update_tx_status set_map by blast
  show ?thesis
  proof (cases "transaction_hash t0 = h")
    case True
    then have "t = t0\<lparr>status := chain_status btx,
                         confirmations := chain_confirmations btx,
                         confirmed_at :=
                           (if chain_status btx = Confirmed then Some now else None)\<rparr>"
      using t by simp
    then show ?thesis by simp
  next
    case False
    then have "t = t0" using t by simp
    with h False show ?thesis by simp
  qed
qed

lemma distinct_hash_same_row:
  assumes "distinct (map transaction_hash (transactions d))"
    and "r \<in> set (transactions d)" and "t \<in> set (transactions d)"
    and "transaction_hash r = transaction_hash t"
  shows "r = t"
  using assms by (auto simp: distinct_map dest: inj_onD)

lemma getTransactionRoute_reached:
  assumes len: "length h = 66"
    and rows: "select_tx_for_user d h u = row # rest"
  shows "snd (getTransactionRoute d (Inr btx) now h u) =
           (if chain_status btx \<noteq> status row then update_tx_status d h btx now else d)"
  unfolding getTransactionRoute_def Let_def
  by (simp only: len rows list.case sum.case snd_conv if_False not_not refl simp_thms)

lemma getTransactionRoute_adapter_raises:
  assumes len: "length h = 66"
    and rows: "select_tx_for_user d h u = row # rest"
  shows "snd (getTransactionRoute d (Inl e) now h u) = d"
  unfolding getTransactionRoute_def
  by (simp only: len rows list.case sum.case snd_conv if_False not_not refl simp_thms)

text \<open>
  Claim C1, as the handler implements it. A reconciliation that reaches the comparison
  (a 66-character hash, a row visible to the caller, an answer from the adapter) leaves
  the row with the status the adapter reports: the row is rewritten whenever the two
  differ, whatever the stored status was, and it is kept only when they already agree.
  The table is left alone when the adapter raises.
\<close>

theorem reconcile_follows_adapter:
  assumes len: "length h = 66"
    and rows: "select_tx_for_user d h u = row # rest"
    and dist: "distinct (map transaction_hash (transactions d))"
  shows "(\<forall>t \<in> set (transactions (snd (getTransactionRoute d (Inr btx) now h u))).
            transaction_hash t = h \<longrightarrow> status t = chain_status btx)
         \<and> (chain_status btx = status row \<longrightarrow>
              snd (getTransactionRoute d (Inr btx) now h u) = d)
         \<and> snd (getTransactionRoute d (Inl e) now h u) = d"
proof (intro conjI ballI impI)
  have "row \<in> set (select_tx_for_user d h u)" unfolding rows by simp
  then have row: "row \<in> set (transactions d)" "transaction_hash row = h"
    using select_tx_for_user_mem[of row d h u] by blast+
  note res = getTransactionRoute_reached[OF len rows, of btx now]
  {
    fix t
    assume t: "t \<in> set (transactions (snd (getTransactionRoute d (Inr btx) now h u)))"
      and th: "transaction_hash t = h"
    show "status t = chain_status btx"
    proof (cases "chain_status btx = status row")
      case True
      then have "snd (getTransactionRoute d (Inr btx) now h u) = d" unfolding res by simp
      then have td: "t \<in> set (transactions d)" using t by simp
      have "transaction_hash t = transaction_hash row" unfolding th row(2) ..
      then have "t = row" using distinct_hash_same_row[OF dist td row(1)] by blast
      then show ?thesis unfolding True by (rule arg_cong)
    next
      case False
      then have "snd (getTransactionRoute d (Inr btx) now h u) = update_tx_status d h btx now"
        unfolding res by simp
      then have "t \<in> set (transactions (update_tx_status d h btx now))" using t by simp
      then show ?thesis using th by (rule update_tx_status_hash)
    qed
  }
  {
    assume "chain_status btx = status row"
    then show "snd (getTransactionRoute d (Inr btx) now h u) = d" unfolding res by simp
  }
  show "snd (getTransactionRoute d (Inl e) now h u) = d"
    by (rule getTransactionRoute_adapter_raises[OF len rows])
qed

text \<open>
  Claim C1 as stated fails: a transaction stored as confirmed is set back to pending
  by one reconciliation in which the adapter reports pending.
\<close>

theorem terminal_status_overwritten:
  "map status (transactions example_db) = [Confirmed] \<and>
   map status (transactions (snd (getTransactionRoute example_db
       (Inr \<lparr>chain_status = Pending, chain_confirmations = 0\<rparr>) 9 (replicate 66 CHR ''a'') 7)))
     = [Pending]"
  by (simp add: getTransactionRoute_def select_tx_for_user_def update_tx_status_def
      example_db_def example_tx_def example_wallet_def)

text \<open>The theorem for C1 at the sample table: the adapter reports failed.\<close>

theorem reconcile_follows_adapter_witness:
  "length (replicate 66 CHR ''a'') = 66 \<and>
   select_tx_for_user example_db (replicate 66 CHR ''a'') 7 = [example_tx] \<and>
   distinct (map transaction_hash (transactions example_db)) \<and>
   map status (transactions (snd (getTransactionRoute example_db
       (Inr \<lparr>chain_status = Failed, chain_confirmations = 3\<rparr>) 9 (replicate 66 CHR ''a'') 7)))
     = [Failed] \<and>
   snd (getTransactionRoute example_db (Inl FailedToGetTransactionDetails) 9
       (replicate 66 CHR ''a'') 7) = example_db"
proof -
  have len: "length (replicate 66 CHR ''a'') = 66" by simp
  have rows: "select_tx_for_user example_db (replicate 66 CHR ''a'') 7 = example_tx # []"
    by (simp add: select_tx_for_user_def example_db_def example_tx_def example_wallet_def)
  have dist: "distinct (map transaction_hash (transactions example_db))"
    by (simp add: example_db_def)
  have upd: "map status (transactions (snd (getTransactionRoute example_db
       (Inr \<lparr>chain_status = Failed, chain_confirmations = 3\<rparr>) 9 (replicate 66 CHR ''a'') 7)))
     = [Failed]"
    by (simp add: getTransactionRoute_def select_tx_for_user_def update_tx_status_def
      example_db_def example_tx_def example_wallet_def)
  from reconcile_follows_adapter[OF len rows dist,
      of "\<lparr>chain_status = Failed, chain_confirmations = 3\<rparr>" 9 FailedToGetTransactionDetails]
  have "snd (getTransactionRoute example_db (Inl FailedToGetTransactionDetails) 9
       (replicate 66 CHR ''a'') 7) = example_db" by simp
  with len rows dist upd show ?thesis by simp
qed

section \<open>Send: the balance check\<close>

lemma example_doubles:
  "round_double 50 = Num 50" "round_double 51 = Num 51" "round_double 1 = Num 1"
  "round_double 30 = Num 30" "round_double 80 = Num 80" "round_double 100 = Num 100"
  "round_double 110 = Num 110" "round_double 20 = Num 20"
  "round_double 10000 = Num 10000" "round_double 100000 = Num 100000"
  "round_double (1 / 1000) = Num (1152921504606847 / 1152921504606846976)"
  by code_simp+

lemma example_rounded_balance:
  "round_double (17179869184999999 / 1000000) = Num 17179869185"
  "round_double 17179869185 = Num 17179869185"
  by code_simp+

lemma example_numeric:
  "numeric_20_6 30 = Some 30" "numeric_20_6 17179869185 = Some 17179869185"
  by code_simp+

text \<open>
  Claim C2, as the service implements it. For a send that reaches the balance check
  (the recipient address passes the format check, the wallet is an active wallet of the
  caller, and its stored key text parses), if the double that \<open>Number.parseFloat\<close>
  makes of the requested amount is greater than the double it makes of the cached
  balance, \<open>sendUSDC\<close> raises the insufficient-balance error; the database is returned
  as it was, so no transaction row is inserted, and the list of submitted transfers is
  returned as it was, so nothing went to the chain.
\<close>

theorem sendUSDC_insufficient_balance:
  assumes valid: "chain_isValidAddress ch toAddress"
    and found: "filter (\<lambda>w. wallet_id w = walletId \<and> user_id w = userId \<and> wallet_status w = Active)
                  (wallets d) = wallet # rest"
    and parsed: "JSON_parse (encrypted_private_key wallet) = Inr encryptedPrivateKey"
    and gt: "js_gt (parseFloat amt) (cached_balance wallet)"
  shows "sendUSDC ch newId now d submitted walletId userId toAddress amt memoText
           = (Inl InsufficientUSDCBalance, d, submitted)"
proof -
  have lt: "js_lt (cached_balance wallet) (parseFloat amt)" using gt unfolding js_gt_def .
  show ?thesis
    unfolding sendUSDC_def
    by (simp only: valid found parsed lt list.case sum.case if_True if_False
        not_True_eq_False simp_thms)
qed

text \<open>
  Claim C2 as stated fails where the two decimals round to the same double. A wallet
  with a cached balance of 17179869184.999999 and a request for 17179869185: the amount
  is greater than the balance, both read as the double 17179869185, the check passes,
  the transfer is submitted and the transaction row is inserted. And where the stored
  key text is not JSON, a request for 51 against a balance of 50 ends in the error of
  \<open>JSON.parse\<close>, which runs before the balance is looked at.
\<close>

theorem rounded_balance_admits_larger_amount:
  "(17179869184999999 / 1000000 :: rat) < 17179869185
   \<and> sendUSDC example_chain 2 9 (example_db_balance (17179869184999999 / 1000000)) [] 1 7
        ''0xB'' (Decimal 17179869185) None
     = (Inr \<lparr>sv_transactionId = 2, sv_transactionHash = replicate 66 CHR ''b'',
             sv_from = ''0xA'', sv_to = ''0xB'', sv_amount = Decimal 17179869185,
             sv_status = Pending, sv_createdAt = 9\<rparr>,
        \<lparr>wallets = [example_wallet\<lparr>balance_usdc := Some (17179869184999999 / 1000000)\<rparr>],
         transactions =
           [example_tx,
            \<lparr>tx_id = 2, tx_wallet_id = 1, transaction_hash = replicate 66 CHR ''b'',
             from_address = ''0xA'', to_address = ''0xB'', amount = 17179869185,
             gas_used = ''21000'', gas_price = ''1'', transaction_type = Send,
             status = Pending, confirmations = 0, memo = None, created_at = 9,
             confirmed_at = None\<rparr>]\<rparr>,
        [(KeyObject \<lparr>encrypted = ''c'', iv = ''i'', authTag = ''t''\<rparr>, ''0xB'',
          Decimal 17179869185)])
   \<and> sendUSDC example_chain 2 9 (example_db_key_text ''{'') [] 1 7 ''0xB'' (Decimal 51) None
     = (Inl SyntaxError, example_db_key_text ''{'', [])"
proof -
  have less: "(17179869184999999 / 1000000 :: rat) < 17179869185" by simp
  have run: "sendUSDC example_chain 2 9 (example_db_balance (17179869184999999 / 1000000)) [] 1 7
        ''0xB'' (Decimal 17179869185) None
     = (Inr \<lparr>sv_transactionId = 2, sv_transactionHash = replicate 66 CHR ''b'',
             sv_from = ''0xA'', sv_to = ''0xB'', sv_amount = Decimal 17179869185,
             sv_status = Pending, sv_createdAt = 9\<rparr>,
        \<lparr>wallets = [example_wallet\<lparr>balance_usdc := Some (17179869184999999 / 1000000)\<rparr>],
         transactions =
           [example_tx,
            \<lparr>tx_id = 2, tx_wallet_id = 1, transaction_hash = replicate 66 CHR ''b'',
             from_address = ''0xA'', to_address = ''0xB'', amount = 17179869185,
             gas_used = ''21000'', gas_price = ''1'', transaction_type = Send,
             status = Pending, confirmations = 0, memo = None, created_at = 9,
             confirmed_at = None\<rparr>]\<rparr>,
        [(KeyObject \<lparr>encrypted = ''c'', iv = ''i'', authTag = ''t''\<rparr>, ''0xB'',
          Decimal 17179869185)])"
    by (simp add: sendUSDC_def JSON_parse_def cached_balance_def insert_transaction_def
        example_rounded_balance example_doubles example_numeric
        example_chain_def example_db_balance_def example_tx_def example_wallet_def)
  have unparsed: "sendUSDC example_chain 2 9 (example_db_key_text ''{'') [] 1 7 ''0xB''
        (Decimal 51) None = (Inl SyntaxError, example_db_key_text ''{'', [])"
    by (simp add: sendUSDC_def JSON_parse_def example_chain_def example_db_key_text_def
        example_wallet_def)
  from less run unparsed show ?thesis by (intro conjI)
qed

text \<open>The theorem for C2 at the sample table: balance 50, requested 51.\<close>

theorem sendUSDC_insufficient_balance_witness:
  "chain_isValidAddress example_chain ''0xB'' \<and>
   filter (\<lambda>w. wallet_id w = 1 \<and> user_id w = 7 \<and> wallet_status w = Active) (wallets example_db)
     = [example_wallet] \<and>
   JSON_parse (encrypted_private_key example_wallet)
     = Inr (KeyObject \<lparr>encrypted = ''c'', iv = ''i'', authTag = ''t''\<rparr>) \<and>
   js_gt (parseFloat (Decimal 51)) (cached_balance example_wallet) \<and>
   sendUSDC example_chain 2 9 example_db [] 1 7 ''0xB'' (Decimal 51) None
     = (Inl InsufficientUSDCBalance, example_db, [])"
proof -
  have valid: "chain_isValidAddress example_chain ''0xB''"
    by (simp add: example_chain_def)
  have found: "filter (\<lambda>w. wallet_id w = 1 \<and> user_id w = 7 \<and> wallet_status w = Active)
                 (wallets example_db) = example_wallet # []"
    by (simp add: example_db_def example_wallet_def)
  have parsed: "JSON_parse (encrypted_private_key example_wallet)
     = Inr (KeyObject \<lparr>encrypted = ''c'', iv = ''i'', authTag = ''t''\<rparr>)"
    by (simp add: JSON_parse_def example_wallet_def)
  have gt: "js_gt (parseFloat (Decimal 51)) (cached_balance example_wallet)"
    by (simp add: js_gt_def cached_balance_def example_wallet_def example_doubles)
  from sendUSDC_insufficient_balance[OF valid found parsed gt, of 2 9 "[]" None]
    valid found parsed gt
  show ?thesis by simp
qed

section \<open>Wallet creation: names and the primary flag\<close>

lemma wallets_set_wallet_balance:
  "wallets (set_wallet_balance d i b now) =
     map (\<lambda>x. if wallet_id x = i
              then x\<lparr>balance_usdc := Some b, last_balance_update := Some now\<rparr> else x)
         (wallets d)"
  unfolding set_wallet_balance_def by simp

lemma set_wallet_balance_keys:
  "map (\<lambda>w. (user_id w, wallet_name w)) (wallets (set_wallet_balance d i b now)) =
     map (\<lambda>w. (user_id w, wallet_name w)) (wallets d)"
  unfolding wallets_set_wallet_balance map_map comp_def
  by (rule map_cong[OF refl]) simp

lemma set_wallet_balance_other:
  assumes "j \<noteq> i"
  shows "filter (\<lambda>w. wallet_id w = j) (wallets (set_wallet_balance d i b now)) =
           filter (\<lambda>w. wallet_id w = j) (wallets d)"
  unfolding wallets_set_wallet_balance
proof (induction "wallets d" arbitrary: d)
  case Nil
  then show ?case by simp
next
  case (Cons x xs)
  from Cons(2)[symmetric] have w: "wallets d = x # xs" .
  have ih: "filter (\<lambda>w. wallet_id w = j)
              (map (\<lambda>x. if wallet_id x = i
                        then x\<lparr>balance_usdc := Some b, last_balance_update := Some now\<rparr> else x) xs)
            = filter (\<lambda>w. wallet_id w = j) xs"
    using Cons(1)[of "d\<lparr>wallets := xs\<rparr>"] by simp
  show ?case unfolding w using ih assms by (cases "wallet_id x = i") simp_all
qed

lemma filter_id_map_primary:
  assumes "\<And>x. wallet_id (f x) = wallet_id x" and "\<And>x. is_primary (f x) = is_primary x"
  shows "map is_primary (filter (\<lambda>w. wallet_id w = j) (map f xs)) =
           map is_primary (filter (\<lambda>w. wallet_id w = j) xs)"
  by (induction xs) (simp_all add: assms)

lemma set_wallet_balance_primary:
  "map is_primary (filter (\<lambda>w. wallet_id w = j) (wallets (set_wallet_balance d i b now))) =
     map is_primary (filter (\<lambda>w. wallet_id w = j) (wallets d))"
  unfolding wallets_set_wallet_balance
  by (rule filter_id_map_primary) simp_all

lemma updateWalletBalance_cases:
  "snd (updateWalletBalance ch now d i) = d \<or>
   (\<exists>b. snd (updateWalletBalance ch now d i) = set_wallet_balance d i b now)"
  unfolding updateWalletBalance_def
  by (cases "filter (\<lambda>w. wallet_id w = i) (wallets d)";
      cases "chain_getUSDCBalance ch (address (hd (filter (\<lambda>w. wallet_id w = i) (wallets d))))")
     auto

lemma updateWalletBalance_Inr:
  assumes "updateWalletBalance ch now d i = (Inr bal, d')"
  shows "d' = set_wallet_balance d i (bu_balance_usdc bal) now"
  using assms unfolding updateWalletBalance_def
  by (cases "filter (\<lambda>w. wallet_id w = i) (wallets d)";
      cases "chain_getUSDCBalance ch (address (hd (filter (\<lambda>w. wallet_id w = i) (wallets d))))")
     auto

lemma insert_wallet_Inr:
  assumes "insert_wallet d row = Inr d1"
  shows "d1 = d\<lparr>wallets := wallets d @ [row]\<rparr>"
    and "\<forall>w \<in> set (wallets d). wallet_id w \<noteq> wallet_id row"
    and "\<forall>w \<in> set (wallets d). \<not> (user_id w = user_id row \<and> wallet_name w = wallet_name row)"
  using assms unfolding insert_wallet_def by (auto split: if_splits)

lemma createWallet_Inr:
  assumes ok: "createWallet ch newId now d u n c = (Inr v, d')"
  shows "\<exists>addr ek bal.
           d' = set_wallet_balance
                  (d\<lparr>wallets := wallets d @
                       [new_wallet_row newId now u c n addr ek
                          (length (filter (\<lambda>w. user_id w = u) (wallets d)) = 0)]\<rparr>) newId bal now
           \<and> wv_id v = newId
           \<and> wv_isPrimary v = (length (filter (\<lambda>w. user_id w = u) (wallets d)) = 0)
           \<and> (\<forall>w \<in> set (wallets d). wallet_id w \<noteq> newId)"
proof (cases "filter (\<lambda>w. user_id w = u \<and> wallet_name w = n) (wallets d) = []")
  case False
  then show ?thesis using ok unfolding createWallet_def by simp
next
  case noDup: True
  show ?thesis
  proof (cases "chain_generateWallet ch")
    case (Inl e)
    then show ?thesis using ok noDup unfolding createWallet_def by simp
  next
    case (Inr p)
    obtain addr ek where p: "p = (addr, ek)" by (cases p)
    define row where "row = new_wallet_row newId now u c n addr ek
                          (length (filter (\<lambda>w. user_id w = u) (wallets d)) = 0)"
    have rid: "wallet_id row = newId" unfolding row_def new_wallet_row_def by simp
    have step: "createWallet ch newId now d u n c =
                  (case insert_wallet d row of
                    Inl e \<Rightarrow> (Inl e, d)
                  | Inr d1 \<Rightarrow>
                      (case updateWalletBalance ch now d1 newId of
                         (Inl e, d2) \<Rightarrow> (Inl e, d2)
                       | (Inr bal, d2) \<Rightarrow>
                           (Inr \<lparr>wv_id = newId, wv_address = addr,
                                 wv_walletName = n,
                                 wv_isPrimary = (length (filter (\<lambda>w. user_id w = u) (wallets d)) = 0),
                                 wv_balance = bu_balance_usdc bal,
                                 wv_createdAt = now\<rparr>, d2)))"
      unfolding createWallet_def Let_def row_def using noDup Inr p by simp
    show ?thesis
    proof (cases "insert_wallet d row")
      case (Inl e)
      then show ?thesis using ok unfolding step by simp
    next
      case ins: (Inr d1)
      note d1 = insert_wallet_Inr[OF ins]
      obtain r d2 where upd: "updateWalletBalance ch now d1 newId = (r, d2)"
        by (cases "updateWalletBalance ch now d1 newId")
      show ?thesis
      proof (cases r)
        case (Inl e)
        then show ?thesis using ok upd ins unfolding step by simp
      next
        case (Inr bal)
        have d2: "d2 = set_wallet_balance d1 newId (bu_balance_usdc bal) now"
          using updateWalletBalance_Inr[of ch now d1 newId bal d2] upd Inr by simp
        have v: "v = \<lparr>wv_id = newId, wv_address = addr, wv_walletName = n,
                      wv_isPrimary = (length (filter (\<lambda>w. user_id w = u) (wallets d)) = 0),
                      wv_balance = bu_balance_usdc bal, wv_createdAt = now\<rparr>"
          and d': "d' = d2"
          using ok upd ins Inr unfolding step by simp_all
        have "d' = set_wallet_balance (d\<lparr>wallets := wallets d @ [row]\<rparr>) newId
                     (bu_balance_usdc bal) now"
          unfolding d' d2 d1(1) ..
        moreover have "wv_id v = newId" unfolding v by simp
        moreover have "wv_isPrimary v = (length (filter (\<lambda>w. user_id w = u) (wallets d)) = 0)"
          unfolding v by simp
        moreover have "\<forall>w \<in> set (wallets d). wallet_id w \<noteq> newId"
          using d1(2) unfolding rid .
        ultimately show ?thesis unfolding row_def by blast
      qed
    qed
  qed
qed

lemma count_user_map:
  assumes "\<And>x. user_id (f x) = user_id x"
  shows "length (filter (\<lambda>w. user_id w = u) (map f xs)) =
           length (filter (\<lambda>w. user_id w = u) xs)"
  by (induction xs) (simp_all add: assms)

lemma set_wallet_balance_count_user:
  "length (filter (\<lambda>w. user_id w = u) (wallets (set_wallet_balance d i b now))) =
     length (filter (\<lambda>w. user_id w = u) (wallets d))"
  unfolding wallets_set_wallet_balance
  by (rule count_user_map) simp

lemma insert_wallet_names_unique:
  assumes ins: "insert_wallet d row = Inr d1" and inv: "names_unique d"
  shows "names_unique d1"
proof -
  note f = insert_wallet_Inr[OF ins]
  have "(user_id row, wallet_name row) \<notin> (\<lambda>w. (user_id w, wallet_name w)) ` set (wallets d)"
    using f(3) by auto
  then show ?thesis using inv unfolding names_unique_def f(1) by simp
qed

lemma set_wallet_balance_names_unique:
  "names_unique (set_wallet_balance d i b now) = names_unique d"
  unfolding names_unique_def set_wallet_balance_keys ..

lemma createWallet_snd_cases:
  "snd (createWallet ch newId now d u n c) = d \<or>
   (\<exists>row d1. insert_wallet d row = Inr d1 \<and>
      (snd (createWallet ch newId now d u n c) = d1 \<or>
       (\<exists>b. snd (createWallet ch newId now d u n c) = set_wallet_balance d1 newId b now)))"
proof (cases "filter (\<lambda>w. user_id w = u \<and> wallet_name w = n) (wallets d) = []")
  case False
  then show ?thesis unfolding createWallet_def by simp
next
  case noDup: True
  show ?thesis
  proof (cases "chain_generateWallet ch")
    case (Inl e)
    then show ?thesis using noDup unfolding createWallet_def by simp
  next
    case (Inr p)
    obtain addr ek where p: "p = (addr, ek)" by (cases p)
    define row where "row = new_wallet_row newId now u c n addr ek
                          (length (filter (\<lambda>w. user_id w = u) (wallets d)) = 0)"
    have step: "snd (createWallet ch newId now d u n c) =
                  (case insert_wallet d row of
                    Inl e \<Rightarrow> d
                  | Inr d1 \<Rightarrow> snd (updateWalletBalance ch now d1 newId))"
      unfolding createWallet_def Let_def row_def using noDup Inr p
      by (simp split: sum.split prod.split)
    show ?thesis
    proof (cases "insert_wallet d row")
      case (Inl e)
      then show ?thesis unfolding step by simp
    next
      case ins: (Inr d1)
      have s: "snd (createWallet ch newId now d u n c) = snd (updateWalletBalance ch now d1 newId)"
        unfolding step ins by simp
      from updateWalletBalance_cases[of ch now d1 newId] ins show ?thesis
        unfolding s by blast
    qed
  qed
qed

text \<open>
  Claim C8. If no two rows of the wallets table share owner and name, then the same
  holds after \<open>createWallet\<close>, whatever its outcome; in particular two different
  wallets that are not deleted differ in owner or name. A request whose owner and name
  match an existing row is rejected with the table unchanged, and the match does not
  look at the status of the existing row: the name of a soft-deleted wallet is taken.
\<close>

theorem wallet_names_unique:
  assumes inv: "names_unique d"
  shows "names_unique (snd (createWallet ch newId now d u n c))
     \<and> (\<forall>w1 \<in> set (wallets d). \<forall>w2 \<in> set (wallets d).
           w1 \<noteq> w2 \<and> wallet_status w1 \<noteq> Deleted \<and> wallet_status w2 \<noteq> Deleted \<longrightarrow>
           (user_id w1, wallet_name w1) \<noteq> (user_id w2, wallet_name w2))
     \<and> ((\<exists>w \<in> set (wallets d). user_id w = u \<and> wallet_name w = n) \<longrightarrow>
           createWallet ch newId now d u n c = (Inl WalletNameExists, d))"
proof (intro conjI ballI impI)
  show "names_unique (snd (createWallet ch newId now d u n c))"
    using createWallet_snd_cases[of ch newId now d u n c] inv
      insert_wallet_names_unique set_wallet_balance_names_unique
    by metis
next
  fix w1 w2
  assume m: "w1 \<in> set (wallets d)" "w2 \<in> set (wallets d)"
    and ne: "w1 \<noteq> w2 \<and> wallet_status w1 \<noteq> Deleted \<and> wallet_status w2 \<noteq> Deleted"
  have "inj_on (\<lambda>w. (user_id w, wallet_name w)) (set (wallets d))"
    using inv unfolding names_unique_def distinct_map by simp
  then show "(user_id w1, wallet_name w1) \<noteq> (user_id w2, wallet_name w2)"
    using m ne by (auto dest: inj_onD)
next
  assume "\<exists>w \<in> set (wallets d). user_id w = u \<and> wallet_name w = n"
  then have "filter (\<lambda>w. user_id w = u \<and> wallet_name w = n) (wallets d) \<noteq> []"
    unfolding filter_empty_conv by blast
  then show "createWallet ch newId now d u n c = (Inl WalletNameExists, d)"
    unfolding createWallet_def by simp
qed

text \<open>
  The theorem for C8 on a table whose only wallet is soft-deleted: a new name is
  accepted, the deleted wallet's name is refused.
\<close>

theorem wallet_names_unique_witness:
  "names_unique example_deleted_db
   \<and> names_unique (snd (createWallet example_chain 2 9 example_deleted_db 7 ''savings'' None))
   \<and> createWallet example_chain 2 9 example_deleted_db 7 ''main'' None
        = (Inl WalletNameExists, example_deleted_db)"
proof -
  have inv: "names_unique example_deleted_db"
    by (simp add: names_unique_def example_deleted_db_def)
  have ex: "\<exists>w \<in> set (wallets example_deleted_db). user_id w = 7 \<and> wallet_name w = ''main''"
    by (simp add: example_deleted_db_def example_wallet_def)
  from wallet_names_unique[OF inv, of example_chain 2 9 7 "''savings''" None]
  have a: "names_unique (snd (createWallet example_chain 2 9 example_deleted_db 7 ''savings'' None))"
    by blast
  from wallet_names_unique[OF inv, of example_chain 2 9 7 "''main''" None] ex
  have b: "createWallet example_chain 2 9 example_deleted_db 7 ''main'' None
        = (Inl WalletNameExists, example_deleted_db)"
    by blast
  from inv a b show ?thesis by blast
qed

text \<open>
  Claim C7. A user without wallets creates one, then another. The first call returns a
  primary wallet and stores a primary row; the second returns a wallet that is not
  primary and stores a row that is not primary; and the rows found under the first
  wallet's identifier are the same before and after the second call.
\<close>

theorem first_wallet_primary_second_not:
  assumes none: "filter (\<lambda>w. user_id w = u) (wallets d) = []"
    and c1: "createWallet ch1 id1 now1 d u n1 cl1 = (Inr v1, d1)"
    and c2: "createWallet ch2 id2 now2 d1 u n2 cl2 = (Inr v2, d2)"
  shows "wv_isPrimary v1 \<and> \<not> wv_isPrimary v2 \<and>
         map is_primary (filter (\<lambda>w. wallet_id w = wv_id v1) (wallets d1)) = [True] \<and>
         map is_primary (filter (\<lambda>w. wallet_id w = wv_id v2) (wallets d2)) = [False] \<and>
         filter (\<lambda>w. wallet_id w = wv_id v1) (wallets d2) =
           filter (\<lambda>w. wallet_id w = wv_id v1) (wallets d1)"
proof -
  from createWallet_Inr[OF c1] obtain a1 e1 b1 where
    d1: "d1 = set_wallet_balance
                (d\<lparr>wallets := wallets d @
                     [new_wallet_row id1 now1 u cl1 n1 a1 e1
                        (length (filter (\<lambda>w. user_id w = u) (wallets d)) = 0)]\<rparr>) id1 b1 now1"
    and i1: "wv_id v1 = id1"
    and p1: "wv_isPrimary v1 = (length (filter (\<lambda>w. user_id w = u) (wallets d)) = 0)"
    and fresh1: "\<forall>w \<in> set (wallets d). wallet_id w \<noteq> id1"
    by blast
  from createWallet_Inr[OF c2] obtain a2 e2 b2 where
    d2: "d2 = set_wallet_balance
                (d1\<lparr>wallets := wallets d1 @
                     [new_wallet_row id2 now2 u cl2 n2 a2 e2
                        (length (filter (\<lambda>w. user_id w = u) (wallets d1)) = 0)]\<rparr>) id2 b2 now2"
    and i2: "wv_id v2 = id2"
    and p2: "wv_isPrimary v2 = (length (filter (\<lambda>w. user_id w = u) (wallets d1)) = 0)"
    and fresh2: "\<forall>w \<in> set (wallets d1). wallet_id w \<noteq> id2"
    by blast
  have first: "wv_isPrimary v1" unfolding p1 none by simp
  have none1: "filter (\<lambda>w. wallet_id w = id1) (wallets d) = []"
    unfolding filter_empty_conv using fresh1 by blast
  have row1: "map is_primary (filter (\<lambda>w. wallet_id w = id1) (wallets d1)) = [True]"
    unfolding d1 set_wallet_balance_primary
    by (simp add: none1 none new_wallet_row_def)
  have cnt1: "length (filter (\<lambda>w. user_id w = u) (wallets d1)) = 1"
    unfolding d1 set_wallet_balance_count_user
    by (simp add: none new_wallet_row_def)
  have second: "\<not> wv_isPrimary v2" unfolding p2 cnt1 by simp
  have "filter (\<lambda>w. wallet_id w = id1) (wallets d1) \<noteq> []" using row1 by auto
  then obtain w where w: "w \<in> set (wallets d1)" "wallet_id w = id1"
    unfolding filter_empty_conv by blast
  then have ne: "id1 \<noteq> id2" using fresh2 by blast
  have none2: "filter (\<lambda>w. wallet_id w = id2) (wallets d1) = []"
    unfolding filter_empty_conv using fresh2 by blast
  have row2: "map is_primary (filter (\<lambda>w. wallet_id w = id2) (wallets d2)) = [False]"
    unfolding d2 set_wallet_balance_primary
    by (simp add: none2 cnt1 new_wallet_row_def)
  have keep: "filter (\<lambda>w. wallet_id w = id1) (wallets d2) =
                filter (\<lambda>w. wallet_id w = id1) (wallets d1)"
    unfolding d2 set_wallet_balance_other[OF ne]
    using ne by (simp add: new_wallet_row_def)
  from first second row1 row2 keep show ?thesis unfolding i1 i2 by blast
qed

lemma example_first_create:
  "createWallet example_chain 1 5 example_empty_db 7 ''main'' None
     = (Inr example_first_view, \<lparr>wallets = [example_first_row], transactions = []\<rparr>)"
  by (simp add: createWallet_def insert_wallet_def updateWalletBalance_def
      set_wallet_balance_def new_wallet_row_def JSON_stringify_def example_chain_def
      example_empty_db_def
      example_first_view_def example_first_row_def)

lemma example_second_create:
  "createWallet example_chain 2 6 \<lparr>wallets = [example_first_row], transactions = []\<rparr> 7
       ''savings'' None
     = (Inr example_second_view,
        \<lparr>wallets = [example_first_row, example_second_row], transactions = []\<rparr>)"
  by (simp add: createWallet_def insert_wallet_def updateWalletBalance_def
      set_wallet_balance_def new_wallet_row_def JSON_stringify_def example_chain_def
      example_second_view_def example_first_row_def example_second_row_def)

text \<open>
  The theorem for C7 on the empty table with the sample adapter.
\<close>

theorem first_wallet_primary_second_not_witness:
  "filter (\<lambda>w. user_id w = 7) (wallets example_empty_db) = [] \<and>
   createWallet example_chain 1 5 example_empty_db 7 ''main'' None
     = (Inr example_first_view, \<lparr>wallets = [example_first_row], transactions = []\<rparr>) \<and>
   createWallet example_chain 2 6 \<lparr>wallets = [example_first_row], transactions = []\<rparr> 7
       ''savings'' None
     = (Inr example_second_view,
        \<lparr>wallets = [example_first_row, example_second_row], transactions = []\<rparr>) \<and>
   wv_isPrimary example_first_view \<and> \<not> wv_isPrimary example_second_view \<and>
   filter (\<lambda>w. wallet_id w = wv_id example_first_view)
     (wallets \<lparr>wallets = [example_first_row, example_second_row], transactions = []\<rparr>) =
   filter (\<lambda>w. wallet_id w = wv_id example_first_view)
     (wallets \<lparr>wallets = [example_first_row], transactions = []\<rparr>)"
proof -
  have none: "filter (\<lambda>w. user_id w = 7) (wallets example_empty_db) = []"
    by (simp add: example_empty_db_def)
  from first_wallet_primary_second_not[OF none example_first_create example_second_create]
    none example_first_create example_second_create
  show ?thesis by blast
qed

section \<open>Primary wallet: one call alone, and calls interleaved\<close>

lemma filter_primary_cleared:
  "filter (\<lambda>w. user_id w = u \<and> is_primary w)
     (map (\<lambda>w. if user_id w = u then w\<lparr>is_primary := False\<rparr> else w) ws) = []"
  by (induction ws) simp_all

lemma primaries_clear_primary: "primaries (clear_primary d u) u = []"
  unfolding primaries_def clear_primary_def using filter_primary_cleared[of u "wallets d"]
  by simp

lemma primaries_set_clear_ids:
  "map wallet_id (filter (\<lambda>w. user_id w = u \<and> is_primary w)
      (map (\<lambda>w. if wallet_id w = i then w\<lparr>is_primary := True\<rparr> else w)
         (map (\<lambda>w. if user_id w = u then w\<lparr>is_primary := False\<rparr> else w) ws)))
   = map wallet_id (filter (\<lambda>w. wallet_id w = i \<and> user_id w = u) ws)"
  by (induction ws) simp_all

lemma distinct_ids_filter:
  assumes "distinct (map wallet_id ws)"
  shows "length (filter (\<lambda>w. wallet_id w = i \<and> P w) ws) \<le> 1"
  using assms
proof (induction ws)
  case Nil
  then show ?case by simp
next
  case (Cons x xs)
  show ?case
  proof (cases "wallet_id x = i")
    case True
    then have "i \<notin> wallet_id ` set xs" using Cons.prems by auto
    then have "filter (\<lambda>w. wallet_id w = i \<and> P w) xs = []"
      unfolding filter_empty_conv by auto
    then show ?thesis by simp
  next
    case False
    then show ?thesis using Cons by simp
  qed
qed

lemma primaries_after_set:
  assumes ids: "distinct (map wallet_id (wallets d))"
    and own: "select_owned d i u \<noteq> []"
  shows "map wallet_id (primaries (set_primary (clear_primary d u) i) u) = [i]"
proof -
  let ?sel = "filter (\<lambda>w. wallet_id w = i \<and> user_id w = u) (wallets d)"
  have eq: "map wallet_id (primaries (set_primary (clear_primary d u) i) u) = map wallet_id ?sel"
    unfolding primaries_def set_primary_def clear_primary_def
    using primaries_set_clear_ids[of u i "wallets d"] by simp
  have "length ?sel \<le> 1" by (rule distinct_ids_filter[OF ids])
  moreover have "?sel \<noteq> []" using own unfolding select_owned_def .
  ultimately obtain w where sel: "?sel = [w]"
    by (cases ?sel) (auto simp: length_Suc_conv)
  have "w \<in> set ?sel" unfolding sel by simp
  then have "wallet_id w = i" by simp
  then show ?thesis unfolding eq sel by simp
qed

lemma step_at:
  assumes "i < length cs" and "\<not> finished (cs ! i)"
    and "exec_statement d (cs ! i) = (d', c')" and "cs' = cs[i := c']"
  shows "step (d, cs) (d', cs')"
  using step.run[OF assms(1,2,3)] unfolding assms(4) .

lemma step_single:
  assumes "step (d, [c]) s"
  shows "\<not> finished c \<and> s = (fst (exec_statement d c), [snd (exec_statement d c)])"
  using assms
proof (cases rule: step.cases)
  case (run i d' c')
  from run(2) have i: "i = 0" by simp
  from run(3) have nf: "\<not> finished c" unfolding i by simp
  from run(4) have ex: "exec_statement d c = (d', c')" unfolding i by simp
  have "s = (d', [c'])" unfolding run(1) i by simp
  with nf ex show ?thesis by simp
qed

lemma reach_alone:
  assumes "step\<^sup>*\<^sup>* (d, [(i, u, AtVerify)]) s"
  shows "s = (d, [(i, u, AtVerify)])
       \<or> (select_owned d i u = [] \<and> s = (d, [(i, u, Raised)]))
       \<or> (select_owned d i u \<noteq> [] \<and>
            (s = (d, [(i, u, AtClear)])
           \<or> s = (clear_primary d u, [(i, u, AtSet)])
           \<or> s = (set_primary (clear_primary d u) i, [(i, u, Returned)])))"
  using assms
proof (induction rule: rtranclp_induct)
  case base
  then show ?case by simp
next
  case (step y z)
  from step.IH consider
      (a) "y = (d, [(i, u, AtVerify)])"
    | (b) "y = (d, [(i, u, Raised)])"
    | (c) "select_owned d i u \<noteq> []" "y = (d, [(i, u, AtClear)])"
    | (e) "select_owned d i u \<noteq> []" "y = (clear_primary d u, [(i, u, AtSet)])"
    | (f) "y = (set_primary (clear_primary d u) i, [(i, u, Returned)])"
    by blast
  then show ?case
  proof cases
    case a
    from step_single[OF step.hyps(2)[unfolded a]] show ?thesis
      by (cases "select_owned d i u = []") simp_all
  next
    case b
    from step_single[OF step.hyps(2)[unfolded b]] show ?thesis by simp
  next
    case c
    from step_single[OF step.hyps(2)[unfolded c(2)]] c(1) show ?thesis by simp
  next
    case e
    from step_single[OF step.hyps(2)[unfolded e(2)]] e(1) show ?thesis by simp
  next
    case f
    from step_single[OF step.hyps(2)[unfolded f]] show ?thesis by simp
  qed
qed

text \<open>
  Claim C3, as the method implements it. \<open>setPrimaryWallet\<close> runs the clear and the
  set as two statements with no transaction around them. For one call running with no
  other call in flight, on a table with unique identifiers where the user has at most
  one primary wallet: every state the call passes through has at most one primary
  wallet of that user; the state between the two statements has none; and when the call
  has returned, the target is the user's only primary wallet and the table is the one
  the method computes when run in one piece.
\<close>

theorem setPrimaryWallet_alone:
  assumes ids: "distinct (map wallet_id (wallets d))"
    and start: "length (primaries d u) \<le> 1"
    and reach: "step\<^sup>*\<^sup>* (d, [(i, u, AtVerify)]) (d', cs')"
  shows "length (primaries d' u) \<le> 1
       \<and> (cs' = [(i, u, AtSet)] \<longrightarrow> primaries d' u = [])
       \<and> (cs' = [(i, u, Returned)] \<longrightarrow>
            map wallet_id (primaries d' u) = [i] \<and> setPrimaryWallet d i u = (Inr (), d'))"
proof -
  from reach_alone[OF reach] consider
      (same) "d' = d" "cs' \<noteq> [(i, u, AtSet)]" "cs' \<noteq> [(i, u, Returned)]"
    | (cleared) "d' = clear_primary d u" "cs' = [(i, u, AtSet)]"
    | (returned) "select_owned d i u \<noteq> []" "d' = set_primary (clear_primary d u) i"
        "cs' = [(i, u, Returned)]"
    by auto
  then show ?thesis
  proof cases
    case same
    then show ?thesis using start by simp
  next
    case cleared
    then show ?thesis using primaries_clear_primary[of d u] by simp
  next
    case returned
    have ids': "map wallet_id (primaries d' u) = [i]"
      unfolding returned(2) by (rule primaries_after_set[OF ids returned(1)])
    then have "length (map wallet_id (primaries d' u)) = 1" by simp
    then have len: "length (primaries d' u) \<le> 1" by simp
    have "setPrimaryWallet d i u = (Inr (), d')"
      unfolding setPrimaryWallet_def returned(2) using returned(1) by simp
    with ids' len returned(3) show ?thesis by simp
  qed
qed

lemma example_two_wallets_owned:
  "select_owned example_two_wallets 1 7 \<noteq> []" "select_owned example_two_wallets 2 7 \<noteq> []"
  by (simp_all add: select_owned_def example_two_wallets_def example_wallet_def)

lemma example_alone_run:
  "step\<^sup>*\<^sup>* (example_two_wallets, [(2, 7, AtVerify)])
             (clear_primary example_two_wallets 7, [(2, 7, AtSet)])"
proof -
  have s1: "step (example_two_wallets, [(2, 7, AtVerify)]) (example_two_wallets, [(2, 7, AtClear)])"
    by (rule step_at[of 0]) (simp_all add: example_two_wallets_owned example_two_wallets_owned[simplified])
  have s2: "step (example_two_wallets, [(2, 7, AtClear)])
                 (clear_primary example_two_wallets 7, [(2, 7, AtSet)])"
    by (rule step_at[of 0]) simp_all
  from s1 s2 show ?thesis by (meson rtranclp.rtrancl_into_rtrancl rtranclp.rtrancl_refl)
qed

lemma example_interleaved_run:
  "step\<^sup>*\<^sup>* (example_two_wallets, [(1, 7, AtVerify), (2, 7, AtVerify)])
     (set_primary (set_primary (clear_primary (clear_primary example_two_wallets 7) 7) 1) 2,
      [(1, 7, Returned), (2, 7, Returned)])"
proof -
  let ?d0 = example_two_wallets
  let ?d1 = "clear_primary ?d0 7"
  let ?d2 = "clear_primary ?d1 7"
  let ?d3 = "set_primary ?d2 1"
  let ?d4 = "set_primary ?d3 2"
  have s1: "step (?d0, [(1, 7, AtVerify), (2, 7, AtVerify)]) (?d0, [(1, 7, AtClear), (2, 7, AtVerify)])"
    by (rule step_at[of 0]) (simp_all add: example_two_wallets_owned example_two_wallets_owned[simplified])
  have s2: "step (?d0, [(1, 7, AtClear), (2, 7, AtVerify)]) (?d0, [(1, 7, AtClear), (2, 7, AtClear)])"
    by (rule step_at[of 1]) (simp_all add: example_two_wallets_owned example_two_wallets_owned[simplified])
  have s3: "step (?d0, [(1, 7, AtClear), (2, 7, AtClear)]) (?d1, [(1, 7, AtSet), (2, 7, AtClear)])"
    by (rule step_at[of 0]) simp_all
  have s4: "step (?d1, [(1, 7, AtSet), (2, 7, AtClear)]) (?d2, [(1, 7, AtSet), (2, 7, AtSet)])"
    by (rule step_at[of 1]) simp_all
  have s5: "step (?d2, [(1, 7, AtSet), (2, 7, AtSet)]) (?d3, [(1, 7, Returned), (2, 7, AtSet)])"
    by (rule step_at[of 0]) simp_all
  have s6: "step (?d3, [(1, 7, Returned), (2, 7, AtSet)]) (?d4, [(1, 7, Returned), (2, 7, Returned)])"
    by (rule step_at[of 1]) simp_all
  have "step\<^sup>*\<^sup>* (?d0, [(1, 7, AtVerify), (2, 7, AtVerify)]) (?d0, [(1, 7, AtClear), (2, 7, AtVerify)])"
    using s1 by (rule r_into_rtranclp)
  then have "step\<^sup>*\<^sup>* (?d0, [(1, 7, AtVerify), (2, 7, AtVerify)]) (?d0, [(1, 7, AtClear), (2, 7, AtClear)])"
    using s2 by (rule rtranclp.rtrancl_into_rtrancl)
  then have "step\<^sup>*\<^sup>* (?d0, [(1, 7, AtVerify), (2, 7, AtVerify)]) (?d1, [(1, 7, AtSet), (2, 7, AtClear)])"
    using s3 by (rule rtranclp.rtrancl_into_rtrancl)
  then have "step\<^sup>*\<^sup>* (?d0, [(1, 7, AtVerify), (2, 7, AtVerify)]) (?d2, [(1, 7, AtSet), (2, 7, AtSet)])"
    using s4 by (rule rtranclp.rtrancl_into_rtrancl)
  then have "step\<^sup>*\<^sup>* (?d0, [(1, 7, AtVerify), (2, 7, AtVerify)]) (?d3, [(1, 7, Returned), (2, 7, AtSet)])"
    using s5 by (rule rtranclp.rtrancl_into_rtrancl)
  then show ?thesis
    using s6 by (rule rtranclp.rtrancl_into_rtrancl)
qed

text \<open>
  Claim C3 as stated fails on both counts. A user with one primary wallet: between the
  two statements of a single call the user has no primary wallet; and two calls for
  the user's two wallets, each clearing before either sets, return with both wallets
  primary.
\<close>

theorem setPrimaryWallet_not_atomic:
  "length (primaries example_two_wallets 7) = 1
   \<and> step\<^sup>*\<^sup>* (example_two_wallets, [(2, 7, AtVerify)])
               (clear_primary example_two_wallets 7, [(2, 7, AtSet)])
   \<and> length (primaries (clear_primary example_two_wallets 7) 7) = 0
   \<and> step\<^sup>*\<^sup>* (example_two_wallets, [(1, 7, AtVerify), (2, 7, AtVerify)])
       (set_primary (set_primary (clear_primary (clear_primary example_two_wallets 7) 7) 1) 2,
        [(1, 7, Returned), (2, 7, Returned)])
   \<and> length (primaries
         (set_primary (set_primary (clear_primary (clear_primary example_two_wallets 7) 7) 1) 2)
         7) = 2"
proof -
  have a: "length (primaries example_two_wallets 7) = 1"
    by (simp add: primaries_def example_two_wallets_def example_wallet_def)
  have b: "length (primaries (clear_primary example_two_wallets 7) 7) = 0"
    by (simp add: primaries_clear_primary)
  have c: "length (primaries
         (set_primary (set_primary (clear_primary (clear_primary example_two_wallets 7) 7) 1) 2)
         7) = 2"
    by (simp add: primaries_def set_primary_def clear_primary_def example_two_wallets_def
        example_wallet_def)
  from a b c example_alone_run example_interleaved_run show ?thesis by blast
qed

text \<open>
  The theorem for C3 on the sample table, at the state between the two statements.
\<close>

theorem setPrimaryWallet_alone_witness:
  "distinct (map wallet_id (wallets example_two_wallets))
   \<and> length (primaries example_two_wallets 7) \<le> 1
   \<and> step\<^sup>*\<^sup>* (example_two_wallets, [(2, 7, AtVerify)])
               (clear_primary example_two_wallets 7, [(2, 7, AtSet)])
   \<and> primaries (clear_primary example_two_wallets 7) 7 = []"
proof -
  have ids: "distinct (map wallet_id (wallets example_two_wallets))"
    by (simp add: example_two_wallets_def example_wallet_def)
  have start: "length (primaries example_two_wallets 7) \<le> 1"
    by (simp add: primaries_def example_two_wallets_def example_wallet_def)
  from setPrimaryWallet_alone[OF ids start example_alone_run]
  have "primaries (clear_primary example_two_wallets 7) 7 = []" by simp
  with ids start example_alone_run show ?thesis by blast
qed

lemma example_used_today: "sum_transactions example_db 7 3 0 10 = 80"
  by (simp add: sum_transactions_def example_db_def example_tx_def example_wallet_def)


section \<open>Transaction limits\<close>

lemma checkTransactionLimits_reached:
  assumes "sq_whitelabelClient req = Some clientConfig"
    and "sq_user req = Some userId"
    and "cc_featuresConfig clientConfig = Some featuresConfig"
  shows "checkTransactionLimits faults cal d req =
     (case limit_query (daily_query_raises faults)
             (sum_transactions d userId (cc_id clientConfig) (today cal) (tomorrow cal)) of
        Inl e \<Rightarrow> Next
      | Inr dailyTotal \<Rightarrow>
          if js_gt (js_add dailyTotal (parseFloat (sq_amount req)))
               (or_default (dailyTransactionLimit featuresConfig) 10000)
          then Status400 (DailyLimitExceeded (or_default (dailyTransactionLimit featuresConfig) 10000)
                 dailyTotal
                 (js_sub (or_default (dailyTransactionLimit featuresConfig) 10000) dailyTotal))
          else
            (case limit_query (monthly_query_raises faults)
                    (sum_transactions d userId (cc_id clientConfig) (monthStart cal) (monthEnd cal)) of
               Inl e \<Rightarrow> Next
             | Inr monthlyTotal \<Rightarrow>
                 if js_gt (js_add monthlyTotal (parseFloat (sq_amount req)))
                      (or_default (monthlyTransactionLimit featuresConfig) 100000)
                 then Status400 (MonthlyLimitExceeded
                        (or_default (monthlyTransactionLimit featuresConfig) 100000) monthlyTotal
                        (js_sub (or_default (monthlyTransactionLimit featuresConfig) 100000)
                           monthlyTotal))
                 else Next))"
  unfolding checkTransactionLimits_def Let_def
  by (simp only: assms option.case)


lemma sendRoute_limit_passes:
  assumes "checkFeaturePermission ''send'' req = Next"
    and "checkTransactionLimits faults cal d req = Next"
  shows "sendRoute ch faults cal newId now d submitted req =
           sendHandler ch newId now d submitted req"
  unfolding sendRoute_def by (simp only: assms middleware_result.case)




lemma example_permitted: "checkFeaturePermission ''send'' (example_request limit a) = Next"
  by (simp add: checkFeaturePermission_def example_request_def example_client_def)



lemma example_request_fields:
  "sq_whitelabelClient (example_request limit a) = Some (example_client limit)"
  "sq_user (example_request limit a) = Some 7"
  "sq_amount (example_request limit a) = Decimal a"
  "cc_featuresConfig (example_client limit) =
     Some \<lparr>fc_features = Some [''send''], dailyTransactionLimit = limit,
           monthlyTransactionLimit = None\<rparr>"
  "cc_id (example_client limit) = 3"
  by (simp_all add: example_request_def example_client_def)

lemma example_calendar_fields:
  "today example_calendar = 0" "tomorrow example_calendar = 10"
  "monthStart example_calendar = 0" "monthEnd example_calendar = 100"
  by (simp_all add: example_calendar_def)

lemma example_limit_doubles:
  "js_gt (js_add (Num 80) (parseFloat (Decimal 30))) (Num 100)"
  "js_sub (Num 100) (Num 80) = Num 20"
  "round_double (801 / 10) = Num (2818268204315443 / 35184372088832)"
  "js_gt (js_add (Num (2818268204315443 / 35184372088832)) (parseFloat (Decimal 30))) (Num 100)"
  "js_sub (Num 100) (Num (2818268204315443 / 35184372088832))
     = Num (700169004567757 / 35184372088832)"
  "js_add (Num (2818268204315443 / 35184372088832))
      (parseFloat (Decimal (19900000000000002 / 1000000000000000))) = Num 100"
  "\<not> js_gt (Num 100) (Num 100)" "\<not> js_gt (Num 100) (Num 100000)"
  by code_simp+


lemma example_send_goes_out:
  "snd (snd (sendHandler example_chain 2 9 example_db [] (example_request limit 30)))
     = [(KeyObject \<lparr>encrypted = ''c'', iv = ''i'', authTag = ''t''\<rparr>, ''0xB'', Decimal 30)]"
  by (simp add: sendHandler_def sendUSDC_def JSON_parse_def insert_transaction_def
      cached_balance_def example_doubles example_numeric
      example_chain_def example_db_def example_tx_def example_wallet_def example_request_def)


text \<open>
  Claim C10. When the daily query raises, or the daily check passes and the monthly
  query raises, \<open>checkTransactionLimits\<close> calls \<open>next()\<close>: the route goes on to its
  handler exactly as if no limit were configured.
\<close>

theorem limits_fail_open:
  assumes tenant: "sq_whitelabelClient req = Some clientConfig"
    and user: "sq_user req = Some userId"
    and features: "cc_featuresConfig clientConfig = Some featuresConfig"
    and permitted: "checkFeaturePermission ''send'' req = Next"
    and dUsed: "round_double (sum_transactions d userId (cc_id clientConfig)
                   (today cal) (tomorrow cal)) = dUsed"
    and dLimit: "or_default (dailyTransactionLimit featuresConfig) 10000 = dLimit"
  shows "(daily_query_raises faults \<longrightarrow>
            checkTransactionLimits faults cal d req = Next
            \<and> sendRoute ch faults cal newId now d submitted req =
                sendHandler ch newId now d submitted req)
       \<and> (\<not> daily_query_raises faults
          \<and> \<not> js_gt (js_add dUsed (parseFloat (sq_amount req))) dLimit
          \<and> monthly_query_raises faults \<longrightarrow>
            checkTransactionLimits faults cal d req = Next
            \<and> sendRoute ch faults cal newId now d submitted req =
                sendHandler ch newId now d submitted req)"
proof (intro conjI impI)
  note r = checkTransactionLimits_reached[OF tenant user features, of faults cal d]
  {
    assume raises: "daily_query_raises faults"
    show n: "checkTransactionLimits faults cal d req = Next"
      unfolding r limit_query_def using raises by simp
    show "sendRoute ch faults cal newId now d submitted req =
            sendHandler ch newId now d submitted req"
      by (rule sendRoute_limit_passes[OF permitted n])
  }
  {
    assume h: "\<not> daily_query_raises faults
          \<and> \<not> js_gt (js_add dUsed (parseFloat (sq_amount req))) dLimit
          \<and> monthly_query_raises faults"
    show n: "checkTransactionLimits faults cal d req = Next"
      unfolding r limit_query_def dUsed dLimit using h by simp
    show "sendRoute ch faults cal newId now d submitted req =
            sendHandler ch newId now d submitted req"
      by (rule sendRoute_limit_passes[OF permitted n])
  }
qed

text \<open>
  The theorem for C10 at daily limit 100, 80 used, a send of 30 and a database that
  raises: the request passes and the transfer is submitted.
\<close>

theorem limits_fail_open_witness:
  "js_gt (js_add (Num 80) (parseFloat (Decimal 30))) (Num 100)
   \<and> checkTransactionLimits \<lparr>daily_query_raises = True, monthly_query_raises = True\<rparr>
        example_calendar example_db (example_request (Some 100) 30) = Next
   \<and> sendRoute example_chain \<lparr>daily_query_raises = True, monthly_query_raises = True\<rparr>
        example_calendar 2 9 example_db [] (example_request (Some 100) 30)
      = sendHandler example_chain 2 9 example_db [] (example_request (Some 100) 30)
   \<and> snd (snd (sendHandler example_chain 2 9 example_db [] (example_request (Some 100) 30)))
      = [(KeyObject \<lparr>encrypted = ''c'', iv = ''i'', authTag = ''t''\<rparr>, ''0xB'', Decimal 30)]"
proof -
  let ?faults = "\<lparr>daily_query_raises = True, monthly_query_raises = True\<rparr>"
  note f = example_request_fields[of "Some 100"]
  have du: "round_double (sum_transactions example_db 7 (cc_id (example_client (Some 100)))
              (today example_calendar) (tomorrow example_calendar)) = Num 80"
    unfolding f example_calendar_fields example_used_today by (rule example_doubles)
  have dl: "or_default (dailyTransactionLimit
              \<lparr>fc_features = Some [''send''], dailyTransactionLimit = Some 100,
               monthlyTransactionLimit = None\<rparr>) 10000 = Num 100"
    by (simp add: or_default_def example_doubles)
  have raises: "daily_query_raises ?faults" by simp
  from limits_fail_open[OF f(1) f(2) f(4) example_permitted du dl,
      where faults = ?faults and ch = example_chain and newId = 2 and now = 9
        and submitted = "[]"] raises
  have "checkTransactionLimits ?faults example_calendar example_db (example_request (Some 100) 30) = Next
   \<and> sendRoute example_chain ?faults example_calendar 2 9 example_db [] (example_request (Some 100) 30)
      = sendHandler example_chain 2 9 example_db [] (example_request (Some 100) 30)"
    by blast
  with example_limit_doubles(1) example_send_goes_out[of "Some 100"] show ?thesis by blast
qed

section \<open>Webhook fan-out\<close>

lemma deliverWebhook_posts:
  "posts (deliverWebhook env st wh event) =
     posts st @ (if isl (signature env wh) then [] else [wh_id wh])"
  unfolding deliverWebhook_def logWebhookDelivery_def Let_def
  by (cases "signature env wh"; cases "http_post env wh") simp_all

lemma deliverWebhook_logs:
  "webhook_logs (deliverWebhook env st wh event) =
     webhook_logs st @ (if log_raises env (wh_id wh) then [] else [delivery_row env event wh])"
  unfolding deliverWebhook_def logWebhookDelivery_def delivery_row_def Let_def
  by (cases "signature env wh"; cases "http_post env wh")
     (simp_all split: option.split)

lemma deliver_each_posts:
  "posts (deliver_each env st whs event) =
     posts st @ map wh_id (filter (\<lambda>w. \<not> isl (signature env w)) whs)"
  by (induction whs arbitrary: st) (simp_all add: deliverWebhook_posts)

lemma deliver_each_logs:
  "webhook_logs (deliver_each env st whs event) =
     webhook_logs st @ map (delivery_row env event) (filter (\<lambda>w. \<not> log_raises env (wh_id w)) whs)"
  by (induction whs arbitrary: st) (simp_all add: deliverWebhook_logs)

text \<open>
  Claim C9, as the service implements it. When the SELECT answers, \<open>sendWebhook\<close> runs
  \<open>deliverWebhook\<close> for every matching active registration, in order, whatever the
  earlier deliveries did: every registration whose signature could be computed is
  POSTed to exactly once, and every delivery whose log INSERT did not raise appends
  exactly one \<open>webhook_logs\<close> row with its outcome and status code. A log INSERT that
  raises is swallowed: that delivery leaves no row, and the loop goes on.
\<close>

theorem sendWebhook_fan_out:
  assumes "\<not> select_raises env"
  shows "posts (sendWebhook env st whs clientId event) =
           posts st @ map wh_id (filter (\<lambda>w. \<not> isl (signature env w))
                                   (select_webhooks whs clientId event))
       \<and> webhook_logs (sendWebhook env st whs clientId event) =
           webhook_logs st @ map (delivery_row env event)
                               (filter (\<lambda>w. \<not> log_raises env (wh_id w))
                                  (select_webhooks whs clientId event))"
  unfolding sendWebhook_def using assms
  by (simp only: if_False deliver_each_posts deliver_each_logs simp_thms)

lemma example_selected: "select_webhooks example_webhooks 4 ''wallet.created'' = example_webhooks"
  by (simp add: select_webhooks_def example_webhooks_def)

text \<open>
  Claim C9 as stated fails in its second half: of two deliveries that are both
  attempted, the one whose log INSERT raises leaves no \<open>webhook_logs\<close> row.
\<close>

theorem delivery_without_log_row:
  "posts (sendWebhook (example_webhook_env (\<lambda>i. i = 1)) \<lparr>webhook_logs = [], posts = []\<rparr>
            example_webhooks 4 ''wallet.created'') = [1, 2]
   \<and> map wl_webhook_id
        (webhook_logs (sendWebhook (example_webhook_env (\<lambda>i. i = 1))
            \<lparr>webhook_logs = [], posts = []\<rparr> example_webhooks 4 ''wallet.created'')) = [2]"
  by (simp add: sendWebhook_def select_webhooks_def example_webhooks_def example_webhook_env_def
      deliverWebhook_def logWebhookDelivery_def)

text \<open>
  The theorem for C9 on two registrations, the first target timing out: both are
  POSTed to, and the log holds a failed row with status 0 and a success row with 200.
\<close>

theorem sendWebhook_fan_out_witness:
  "\<not> select_raises (example_webhook_env (\<lambda>i. False))
   \<and> posts (sendWebhook (example_webhook_env (\<lambda>i. False)) \<lparr>webhook_logs = [], posts = []\<rparr>
            example_webhooks 4 ''wallet.created'') = [1, 2]
   \<and> map (\<lambda>l. (wl_webhook_id l, wl_status l, wl_status_code l))
        (webhook_logs (sendWebhook (example_webhook_env (\<lambda>i. False))
            \<lparr>webhook_logs = [], posts = []\<rparr> example_webhooks 4 ''wallet.created''))
      = [(1, DeliveryFailed, 0), (2, DeliverySuccess, 200)]"
proof -
  have up: "\<not> select_raises (example_webhook_env (\<lambda>i. False))"
    by (simp add: example_webhook_env_def)
  from sendWebhook_fan_out[OF up, of "\<lparr>webhook_logs = [], posts = []\<rparr>" example_webhooks 4
      "''wallet.created''"]
  have "posts (sendWebhook (example_webhook_env (\<lambda>i. False)) \<lparr>webhook_logs = [], posts = []\<rparr>
            example_webhooks 4 ''wallet.created'') = [1, 2]
   \<and> map (\<lambda>l. (wl_webhook_id l, wl_status l, wl_status_code l))
        (webhook_logs (sendWebhook (example_webhook_env (\<lambda>i. False))
            \<lparr>webhook_logs = [], posts = []\<rparr> example_webhooks 4 ''wallet.created''))
      = [(1, DeliveryFailed, 0), (2, DeliverySuccess, 200)]"
    unfolding example_selected
    by (simp add: example_webhooks_def example_webhook_env_def delivery_row_def)
  with up show ?thesis by blast
qed

section \<open>Key and backup encryption: what the stored fields do\<close>

lemma example_wallet_gcm_sound: "gcm_sound example_wallet_gcm"
  unfolding gcm_sound_def example_wallet_gcm_def
  by (auto split: option.splits)



lemma encryptPrivateKey_Inr:
  assumes "encryptPrivateKey lib key ivHex p = Inr e"
  shows "gcm_encrypt lib key p = Some (encrypted e, authTag e) \<and> iv e = ivHex"
  using assms unfolding encryptPrivateKey_def
  by (cases "gcm_encrypt lib key p") auto

text \<open>
  Claim C5. With a sound cipher, take two results of \<open>encryptPrivateKey\<close> for the same
  private key under the same process secret, drawn with any two IVs. Decrypting the
  first with its \<open>iv\<close> field replaced by any value gives the private key back, and the
  two results have the same \<open>encrypted\<close> and the same \<open>authTag\<close>: the recorded IV
  takes no part in either direction.
\<close>

theorem private_key_iv_unused:
  assumes sound: "gcm_sound lib"
    and e1: "encryptPrivateKey lib key iv1 p = Inr e1"
    and e2: "encryptPrivateKey lib key iv2 p = Inr e2"
  shows "decryptPrivateKey lib key (e1\<lparr>iv := v\<rparr>) = Inr p
       \<and> encrypted e1 = encrypted e2 \<and> authTag e1 = authTag e2"
proof -
  note a = encryptPrivateKey_Inr[OF e1] and b = encryptPrivateKey_Inr[OF e2]
  from a sound have dec: "gcm_decrypt lib key (encrypted e1) (authTag e1) = Some p"
    unfolding gcm_sound_def by blast
  have "decryptPrivateKey lib key (e1\<lparr>iv := v\<rparr>) = Inr p"
    unfolding decryptPrivateKey_def using dec by simp
  moreover from a b have "encrypted e1 = encrypted e2" "authTag e1 = authTag e2" by simp_all
  ultimately show ?thesis by blast
qed

text \<open>
  The theorem for C5 on the stand-in cipher.
\<close>

theorem private_key_iv_unused_witness:
  "gcm_sound example_wallet_gcm
   \<and> encryptPrivateKey example_wallet_gcm (Some ''secret'') ''aa'' ''0xkey''
        = Inr \<lparr>encrypted = ''0xkey'', iv = ''aa'', authTag = ''secret''\<rparr>
   \<and> encryptPrivateKey example_wallet_gcm (Some ''secret'') ''bb'' ''0xkey''
        = Inr \<lparr>encrypted = ''0xkey'', iv = ''bb'', authTag = ''secret''\<rparr>
   \<and> decryptPrivateKey example_wallet_gcm (Some ''secret'')
        \<lparr>encrypted = ''0xkey'', iv = ''zz'', authTag = ''secret''\<rparr> = Inr ''0xkey''"
proof -
  have e1: "encryptPrivateKey example_wallet_gcm (Some ''secret'') ''aa'' ''0xkey''
        = Inr \<lparr>encrypted = ''0xkey'', iv = ''aa'', authTag = ''secret''\<rparr>"
    by (simp add: encryptPrivateKey_def example_wallet_gcm_def)
  have e2: "encryptPrivateKey example_wallet_gcm (Some ''secret'') ''bb'' ''0xkey''
        = Inr \<lparr>encrypted = ''0xkey'', iv = ''bb'', authTag = ''secret''\<rparr>"
    by (simp add: encryptPrivateKey_def example_wallet_gcm_def)
  from private_key_iv_unused[OF example_wallet_gcm_sound e1 e2, of "''zz''"]
  have "decryptPrivateKey example_wallet_gcm (Some ''secret'')
        \<lparr>encrypted = ''0xkey'', iv = ''zz'', authTag = ''secret''\<rparr> = Inr ''0xkey''"
    by simp
  with example_wallet_gcm_sound e1 e2 show ?thesis by blast
qed



text \<open>
  Whatever the key derivation, the derived key is 32 bytes and passwords are unbounded:
  for every salt two different passwords derive the same key.
\<close>

lemma password_collision:
  fixes kdf :: pbkdf2
  shows "\<exists>p q. p \<noteq> q \<and> kdf p s = kdf q s"
proof -
  have "\<not> inj (\<lambda>p. kdf p s)"
  proof
    assume i: "inj (\<lambda>p. kdf p s)"
    have "finite (range (\<lambda>p. kdf p s))" by (rule finite_subset[OF subset_UNIV]) simp
    from finite_imageD[OF this i] have "finite (UNIV :: string set)" .
    then show False using infinite_UNIV_listI by blast
  qed
  then show ?thesis unfolding inj_def by blast
qed






end
